theory Spec2Isabelle
  imports Main "HOL-Library.Word" "HOL-Library.AList" "HOL-Library.Sublist"
begin

section \<open>Values, errors and bind parameters\<close>

text \<open>
  The driver (\<^verbatim>\<open>src/index.js\<close>) is a thin asynchronous layer over two collaborators: the
  Oracle client library (pool, connections) and Node's \<^verbatim>\<open>crypto\<close> module. Every
  \<^verbatim>\<open>await\<close> of the source is a call to one of them; the embedding is sequential (one driver
  call at a time), threads the driver object explicitly and logs each collaborator call.

  Values that travel through bind parameters are plain data.
\<close>

datatype jsval = JUndefined | JNull | JBool bool | JNum int | JStr string

text \<open>
  An exception of the source is a value: a string thrown by the driver itself
  (\<^verbatim>\<open>throw '...'\<close>), a \<^verbatim>\<open>TypeError\<close> of the language (calling a non-function, reading a
  property of \<^verbatim>\<open>undefined\<close>), or the rejection of a collaborator's promise, carried as it
  was received. The message of a \<^verbatim>\<open>TypeError\<close> is the engine's; the model carries one fixed
  text for each place that raises one.
\<close>

datatype error = Thrown string | TypeError string | Rejected string

datatype bind_dir = BIND_IN | BIND_OUT | BIND_INOUT

datatype ora_type = NUMBER | STRING | DATE | CLOB

text \<open>
  \<^verbatim>\<open>class OraSqlParam\<close>: the record holds the object's own properties; \<open>None\<close> means the
  property has not been assigned. The class declares a method \<^verbatim>\<open>val\<close> and that method
  assigns the own property \<^verbatim>\<open>val\<close>, so the field \<open>val\<close> below is also what a later lookup
  of \<^verbatim>\<open>p.val\<close> finds first.
\<close>

record OraSqlParam =
  dir :: "bind_dir option"
  type :: "ora_type option"
  maxSize :: "nat option"
  val :: "jsval option"

definition new_OraSqlParam :: OraSqlParam where
  "new_OraSqlParam = \<lparr>dir = None, type = None, maxSize = None, val = None\<rparr>"

definition dirIn :: "OraSqlParam \<Rightarrow> OraSqlParam" where
  "dirIn p = p\<lparr>dir := Some BIND_IN\<rparr>"

definition dirOut :: "OraSqlParam \<Rightarrow> OraSqlParam" where
  "dirOut p = p\<lparr>dir := Some BIND_OUT\<rparr>"

definition dirInOut :: "OraSqlParam \<Rightarrow> OraSqlParam" where
  "dirInOut p = p\<lparr>dir := Some BIND_INOUT\<rparr>"

definition typeNumber :: "OraSqlParam \<Rightarrow> OraSqlParam" where
  "typeNumber p = p\<lparr>type := Some NUMBER\<rparr>"

text \<open>\<^verbatim>\<open>if (maxSize) this.maxSize = maxSize\<close>: an omitted argument and \<open>0\<close> are both falsy.\<close>

definition typeString :: "nat option \<Rightarrow> OraSqlParam \<Rightarrow> OraSqlParam" where
  "typeString aMaxSize p =
     (let p1 = p\<lparr>type := Some STRING\<rparr>
      in case aMaxSize of
           None \<Rightarrow> p1
         | Some n \<Rightarrow> if n \<noteq> 0 then p1\<lparr>maxSize := Some n\<rparr> else p1)"

definition typeDate :: "OraSqlParam \<Rightarrow> OraSqlParam" where
  "typeDate p = p\<lparr>type := Some DATE\<rparr>"

definition typeClob :: "OraSqlParam \<Rightarrow> OraSqlParam" where
  "typeClob p = p\<lparr>type := Some CLOB\<rparr>"

text \<open>The body of the method \<^verbatim>\<open>val(value) { this.val = value; return this }\<close>.\<close>

definition val_method :: "jsval \<Rightarrow> OraSqlParam \<Rightarrow> OraSqlParam" where
  "val_method v p = p\<lparr>val := Some v\<rparr>"

text \<open>
  The call expression \<^verbatim>\<open>p.val(v)\<close>: the property is looked up on the object first and on
  the prototype second. Without an own property the class method runs; with one, the
  stored datum is what gets called, and a datum is not a function.
\<close>

definition val_call :: "jsval \<Rightarrow> OraSqlParam \<Rightarrow> error + OraSqlParam" where
  "val_call v p =
     (case val p of
        None \<Rightarrow> Inr (val_method v p)
      | Some stored \<Rightarrow> Inl (TypeError ''val is not a function''))"

text \<open>
  \<^verbatim>\<open>class OraSqlParams\<close>: an object whose own properties are the descriptors, in insertion
  order; its one method, \<^verbatim>\<open>add\<close>, lives on the prototype.
\<close>

type_synonym OraSqlParams = "(string \<times> OraSqlParam) list"

text \<open>
  \<^verbatim>\<open>add(name)\<close> hands the name to lodash's \<^verbatim>\<open>set\<close>. A name without \<^verbatim>\<open>.\<close> and \<^verbatim>\<open>[\<close> is a
  property key to lodash, and \<^verbatim>\<open>set\<close> assigns that own property, except that newer releases
  refuse the three keys below. Any other string is read as a path into nested objects;
  such strings are no bind names and are kept out of the model by the type of names.
\<close>

definition plain_name :: "string \<Rightarrow> bool" where
  "plain_name s =
     (CHR ''.'' \<notin> set s \<and> CHR ''['' \<notin> set s \<and>
      s \<noteq> ''__proto__'' \<and> s \<noteq> ''constructor'' \<and> s \<noteq> ''prototype'')"

typedef bind_name = "{s. plain_name s}"
  morphisms key_of bind_name
proof
  show "[] \<in> {s. plain_name s}"
    by (simp add: plain_name_def)
qed

text \<open>
  The call expression \<^verbatim>\<open>params.add(name)\<close>: once a descriptor has been added under the name
  \<^verbatim>\<open>add\<close>, that own property stands where the method was and the call throws. Otherwise
  the method stores a fresh descriptor under \<open>name\<close> and returns it.
\<close>

definition add :: "bind_name \<Rightarrow> OraSqlParams \<Rightarrow> error + OraSqlParam \<times> OraSqlParams" where
  "add name ps =
     (case map_of ps ''add'' of
        Some shadow \<Rightarrow> Inl (TypeError ''add is not a function'')
      | None \<Rightarrow> Inr (new_OraSqlParam, AList.update (key_of name) new_OraSqlParam ps))"

text \<open>
  \<^verbatim>\<open>params.add(name).val(v)\<close>: the descriptor \<^verbatim>\<open>add\<close> returns is the object stored in the
  collection, so what \<^verbatim>\<open>val\<close> does to it is seen through the collection.
\<close>

definition add_val :: "bind_name \<Rightarrow> jsval \<Rightarrow> OraSqlParams \<Rightarrow> error + OraSqlParams" where
  "add_val name v ps =
     (case add name ps of
        Inl e \<Rightarrow> Inl e
      | Inr (param, ps1) \<Rightarrow>
          (case val_call v param of
             Inl e \<Rightarrow> Inl e
           | Inr param1 \<Rightarrow> Inr (AList.update (key_of name) param1 ps1)))"

section \<open>The collaborators\<close>

type_synonym pool_handle = nat
type_synonym connection = nat
type_synonym row = "(string \<times> jsval) list"
type_synonym options = "(string \<times> jsval) list"

text \<open>The result object of \<^verbatim>\<open>Connection.execute\<close>; a property the library leaves out is \<open>None\<close>.\<close>

record result =
  rows :: "row list option"
  outBinds :: "(string \<times> jsval) list option"
  rowsAffected :: "nat option"

text \<open>Bind values are an array (positional) or an object of descriptors (named).\<close>

datatype binds = Positional "jsval list" | Named OraSqlParams

text \<open>
  The calls the driver makes to its collaborators, with their arguments; an argument the
  source leaves out is \<open>None\<close>.
\<close>

datatype call =
    CreatePool "string option" "string option" "string option"
  | PoolGetConnection pool_handle
  | ConnExecute connection string "binds option" "options option"
  | ConnClose connection
  | PoolTerminate pool_handle
  | RandomBytes nat

text \<open>
  What the collaborators answer is a parameter of every driver function. An answer may
  depend on everything that was called before (the log), and every promise may reject:
  \<open>Inl e\<close>, respectively \<open>Some e\<close>, is a rejection with error \<open>e\<close>.
  \<^verbatim>\<open>crypto.randomBytes(n)\<close> returns \<open>n\<close> bytes; \<open>random_byte\<close> gives the byte at each index.
\<close>

record env =
  createPool_reply :: "call list \<Rightarrow> string option \<Rightarrow> string option \<Rightarrow> string option \<Rightarrow> string + pool_handle"
  getConnection_reply :: "call list \<Rightarrow> pool_handle \<Rightarrow> string + connection"
  execute_reply :: "call list \<Rightarrow> connection \<Rightarrow> string \<Rightarrow> binds option \<Rightarrow> options option \<Rightarrow> string + result"
  close_reply :: "call list \<Rightarrow> connection \<Rightarrow> string option"
  terminate_reply :: "call list \<Rightarrow> pool_handle \<Rightarrow> string option"
  random_byte :: "call list \<Rightarrow> nat \<Rightarrow> 8 word"

section \<open>The driver object\<close>

record config =
  username :: "string option"
  password :: "string option"
  connectString :: "string option"
  schema :: "string option"

text \<open>
  The fields of \<^verbatim>\<open>AfinaSqlDbDriver\<close> (the source's names without the leading underscore);
  \<open>pool\<close> is \<open>None\<close> until \<^verbatim>\<open>open\<close> has assigned it. \<open>calls\<close> is not a field of the source: it
  is the log of the collaborator calls made so far, oldest first.
\<close>

record driver =
  implementation :: string
  isOpened :: bool
  dbUser :: "string option"
  dbPassword :: "string option"
  dbConnectionString :: "string option"
  dbSchema :: "string option"
  browser :: string
  pool :: "pool_handle option"
  calls :: "call list"

definition new_driver :: "config \<Rightarrow> driver" where
  "new_driver cfg =
     \<lparr>implementation = ''AdminOnline'',
      isOpened = False,
      dbUser = username cfg,
      dbPassword = password cfg,
      dbConnectionString = connectString cfg,
      dbSchema = schema cfg,
      browser = ''Afina Oracle Driver'',
      pool = None,
      calls = []\<rparr>"

text \<open>\<^verbatim>\<open>!x\<close> on a string that may be missing: \<^verbatim>\<open>undefined\<close> and the empty string are falsy.\<close>

definition truthy :: "string option \<Rightarrow> bool" where
  "truthy x = (case x of None \<Rightarrow> False | Some s \<Rightarrow> s \<noteq> [])"

text \<open>A value inside a template literal: \<^verbatim>\<open>undefined\<close> prints as the word.\<close>

definition template :: "string option \<Rightarrow> string" where
  "template x = (case x of None \<Rightarrow> ''undefined'' | Some s \<Rightarrow> s)"

subsection \<open>Pool Manager\<close>

definition "open" :: "env \<Rightarrow> driver \<Rightarrow> (error + unit) \<times> driver" where
  "open E d =
     (if \<not> isOpened d then
        (if \<not> truthy (dbUser d) then
           (Inl (Thrown ''You must set user's name before open database''), d)
         else if \<not> truthy (dbConnectionString d) then
           (Inl (Thrown ''You must set connect string before open database''), d)
         else
           (let d1 = d\<lparr>calls := calls d @ [CreatePool (dbUser d) (dbPassword d) (dbConnectionString d)]\<rparr>
            in case createPool_reply E (calls d) (dbUser d) (dbPassword d) (dbConnectionString d) of
                 Inl e \<Rightarrow> (Inl (Rejected e), d1)
               | Inr p \<Rightarrow> (Inr (), d1\<lparr>pool := Some p, isOpened := True\<rparr>)))
      else (Inr (), d))"

text \<open>
  \<^verbatim>\<open>await this._pool.terminate()\<close>: with no pool assigned the member access itself throws;
  a rejected termination leaves the flag as it was.
\<close>

definition close :: "env \<Rightarrow> driver \<Rightarrow> (error + unit) \<times> driver" where
  "close E d =
     (case pool d of
        None \<Rightarrow> (Inl (TypeError ''Cannot read property 'terminate' of undefined''), d)
      | Some p \<Rightarrow>
          (let d1 = d\<lparr>calls := calls d @ [PoolTerminate p]\<rparr>
           in case terminate_reply E (calls d) p of
                Some e \<Rightarrow> (Inl (Rejected e), d1)
              | None \<Rightarrow> (Inr (), d1\<lparr>isOpened := False\<rparr>)))"

text \<open>The number of \<^verbatim>\<open>createPool\<close> calls in a log.\<close>

definition is_CreatePool :: "call \<Rightarrow> bool" where
  "is_CreatePool c = (case c of CreatePool u pw cs \<Rightarrow> True | _ \<Rightarrow> False)"

definition pool_creations :: "call list \<Rightarrow> nat" where
  "pool_creations cs = length (filter is_CreatePool cs)"

subsection \<open>Calls on a connection and on the pool\<close>

text \<open>
  \<^verbatim>\<open>await this._pool.getConnection()\<close>, \<^verbatim>\<open>await lConnection.execute(...)\<close> and
  \<^verbatim>\<open>await lConnection.close()\<close>: each asks the collaborator and appends the call to the log.
\<close>

definition pool_getConnection :: "env \<Rightarrow> driver \<Rightarrow> (error + connection) \<times> driver" where
  "pool_getConnection E d =
     (case pool d of
        None \<Rightarrow> (Inl (TypeError ''Cannot read property 'getConnection' of undefined''), d)
      | Some p \<Rightarrow>
          (let d1 = d\<lparr>calls := calls d @ [PoolGetConnection p]\<rparr>
           in case getConnection_reply E (calls d) p of
                Inl e \<Rightarrow> (Inl (Rejected e), d1)
              | Inr c \<Rightarrow> (Inr c, d1)))"

definition conn_execute ::
  "env \<Rightarrow> connection \<Rightarrow> string \<Rightarrow> binds option \<Rightarrow> options option \<Rightarrow> driver \<Rightarrow> (error + result) \<times> driver" where
  "conn_execute E c sql b opts d =
     (let d1 = d\<lparr>calls := calls d @ [ConnExecute c sql b opts]\<rparr>
      in case execute_reply E (calls d) c sql b opts of
           Inl e \<Rightarrow> (Inl (Rejected e), d1)
         | Inr r \<Rightarrow> (Inr r, d1))"

definition conn_close :: "env \<Rightarrow> connection \<Rightarrow> driver \<Rightarrow> (error + unit) \<times> driver" where
  "conn_close E c d =
     (let d1 = d\<lparr>calls := calls d @ [ConnClose c]\<rparr>
      in case close_reply E (calls d) c of
           Some e \<Rightarrow> (Inl (Rejected e), d1)
         | None \<Rightarrow> (Inr (), d1))"

subsection \<open>Session Binder\<close>

definition schema_sql :: "driver \<Rightarrow> string" where
  "schema_sql d = ''alter session set CURRENT_SCHEMA = '' @ template (dbSchema d)"

definition validate_sql :: string where
  "validate_sql = ''begin PKG_SESSION.VALIDATE_WEB(SCONNECT => :SCONNECT); end;''"

text \<open>\<^verbatim>\<open>if (!this._isOpened) await this.open()\<close>, shared by \<^verbatim>\<open>getConnection\<close> and \<^verbatim>\<open>logon\<close>.\<close>

definition ensure_open :: "env \<Rightarrow> driver \<Rightarrow> (error + unit) \<times> driver" where
  "ensure_open E d = (if \<not> isOpened d then open E d else (Inr (), d))"

definition getConnection :: "env \<Rightarrow> jsval \<Rightarrow> driver \<Rightarrow> (error + connection) \<times> driver" where
  "getConnection E aSessionId d =
     (case ensure_open E d of
        (Inl e, d1) \<Rightarrow> (Inl e, d1)
      | (Inr u, d1) \<Rightarrow>
     (case pool_getConnection E d1 of
        (Inl e, d2) \<Rightarrow> (Inl e, d2)
      | (Inr lConnection, d2) \<Rightarrow>
     (case conn_execute E lConnection (schema_sql d2) None None d2 of
        (Inl e, d3) \<Rightarrow> (Inl e, d3)
      | (Inr r1, d3) \<Rightarrow>
     (case conn_execute E lConnection validate_sql (Some (Positional [aSessionId])) None d3 of
        (Inl e, d4) \<Rightarrow> (Inl e, d4)
      | (Inr r2, d4) \<Rightarrow> (Inr lConnection, d4)))))"

subsection \<open>Statement Executor\<close>

text \<open>
  \<^verbatim>\<open>execute(aSessionId, aSql, aBindParams = [], aExecuteOptions = {}, aConnection = null)\<close>.
  The \<^verbatim>\<open>finally\<close> block runs on both outcomes of the statement; when the \<^verbatim>\<open>close\<close> it awaits
  rejects, that rejection is the outcome of the whole call.
\<close>

definition execute ::
  "env \<Rightarrow> jsval \<Rightarrow> string \<Rightarrow> binds option \<Rightarrow> options option \<Rightarrow> connection option \<Rightarrow> driver
     \<Rightarrow> (error + result) \<times> driver" where
  "execute E aSessionId aSql aBindParams aExecuteOptions aConnection d =
     (let bindParams = (case aBindParams of None \<Rightarrow> Positional [] | Some b \<Rightarrow> b);
          executeOptions = (case aExecuteOptions of None \<Rightarrow> [] | Some opts \<Rightarrow> opts)
      in case (case aConnection of
                 Some c \<Rightarrow> (Inr c, d)
               | None \<Rightarrow> getConnection E aSessionId d) of
           (Inl e, d1) \<Rightarrow> (Inl e, d1)
         | (Inr lConnection, d1) \<Rightarrow>
        (case conn_execute E lConnection aSql (Some bindParams) (Some executeOptions) d1 of
           (outcome, d2) \<Rightarrow>
        (case aConnection of
           Some c \<Rightarrow> (outcome, d2)
         | None \<Rightarrow>
        (case conn_close E lConnection d2 of
           (Inl e, d3) \<Rightarrow> (Inl e, d3)
         | (Inr u, d3) \<Rightarrow> (outcome, d3)))))"

subsection \<open>Session Lifecycle Manager\<close>

definition logoff_sql :: string where
  "logoff_sql = ''begin PKG_SESSION.LOGOFF_WEB(SCONNECT => :SCONNECT); end;''"

definition logoff :: "env \<Rightarrow> jsval \<Rightarrow> driver \<Rightarrow> (error + int) \<times> driver" where
  "logoff E aSessionId d =
     (case execute E aSessionId logoff_sql (Some (Positional [aSessionId])) None None d of
        (Inl e, d1) \<Rightarrow> (Inr (- 1), d1)
      | (Inr r, d1) \<Rightarrow> (Inr 0, d1))"

text \<open>\<^verbatim>\<open>crypto.randomBytes(n)\<close> and \<^verbatim>\<open>Buffer.toString('hex')\<close>: two lowercase digits per byte.\<close>

definition randomBytes :: "env \<Rightarrow> nat \<Rightarrow> driver \<Rightarrow> 8 word list \<times> driver" where
  "randomBytes E n d =
     (map (random_byte E (calls d)) [0..<n], d\<lparr>calls := calls d @ [RandomBytes n]\<rparr>)"

definition hex_digit :: "nat \<Rightarrow> char" where
  "hex_digit n = ''0123456789abcdef'' ! n"

definition hex_of_byte :: "8 word \<Rightarrow> string" where
  "hex_of_byte b = [hex_digit (unat b div 16), hex_digit (unat b mod 16)]"

definition toString_hex :: "8 word list \<Rightarrow> string" where
  "toString_hex bs = concat (map hex_of_byte bs)"

text \<open>The template literal \<^verbatim>\<open>sqlLogon\<close>, with its line breaks and indentation.\<close>

definition sqlLogon :: "bool \<Rightarrow> string" where
  "sqlLogon aOldPackageSession =
     ''begin'' @ [CHR 0x0A] @
     ''               PKG_SESSION.LOGON_WEB(SCONNECT        => :SCONNECT,'' @ [CHR 0x0A] @
     ''                                     SUTILIZER       => :SUTILIZER,'' @ [CHR 0x0A] @
     ''                                     SPASSWORD       => :SPASSWORD,'' @ [CHR 0x0A] @
     ''                                     SIMPLEMENTATION => :SIMPLEMENTATION,'' @ [CHR 0x0A] @
     ''                                     SAPPLICATION    => :SAPPLICATION,'' @ [CHR 0x0A] @
     ''                                     SCOMPANY        => :SCOMPANY,'' @ [CHR 0x0A] @
     ''                                     '' @
     (if \<not> aOldPackageSession then ''SBROWSER        => :SBROWSER,'' else []) @
     [CHR 0x0A] @
     ''                                     SLANGUAGE       => :SLANGUAGE);'' @ [CHR 0x0A] @
     ''             end;''"

definition sqlInfo :: string where
  "sqlInfo =
     ''select '' @ [CHR 0x0A] @
     ''                PKG_SESSION.GET_COMPANY(0) as NCOMPANY, '' @ [CHR 0x0A] @
     ''                PKG_SESSION.GET_UTILIZER_NAME() as SFULLUSERNAME, '' @ [CHR 0x0A] @
     ''                PKG_SESSION.GET_APPLICATION_NAME(0) as SAPPNAME, '' @ [CHR 0x0A] @
     ''                PKG_SESSION.GET_COMPANY_FULLNAME(0) as SCOMPANYFULLNAME '' @ [CHR 0x0A] @
     ''            from dual''"

text \<open>The collection \<^verbatim>\<open>paramsLogin\<close>, built by eight (or seven) \<^verbatim>\<open>add(...).val(...)\<close> chains.\<close>

definition paramsLogin ::
  "driver \<Rightarrow> string \<Rightarrow> jsval \<Rightarrow> jsval \<Rightarrow> jsval \<Rightarrow> jsval \<Rightarrow> jsval \<Rightarrow> bool \<Rightarrow> error + OraSqlParams" where
  "paramsLogin d lSessionId aAfinaUser aAfinaWebPassword aAfinaCompany aAfinaApplication
       aAfinaInterfaceLanguage aOldPackageSession =
     (case add_val (bind_name ''SCONNECT'') (JStr lSessionId) [] of Inl e \<Rightarrow> Inl e | Inr ps1 \<Rightarrow>
     (case add_val (bind_name ''SUTILIZER'') aAfinaUser ps1 of Inl e \<Rightarrow> Inl e | Inr ps2 \<Rightarrow>
     (case add_val (bind_name ''SPASSWORD'') aAfinaWebPassword ps2 of Inl e \<Rightarrow> Inl e | Inr ps3 \<Rightarrow>
     (case add_val (bind_name ''SIMPLEMENTATION'') (JStr (implementation d)) ps3 of Inl e \<Rightarrow> Inl e | Inr ps4 \<Rightarrow>
     (case add_val (bind_name ''SAPPLICATION'') aAfinaApplication ps4 of Inl e \<Rightarrow> Inl e | Inr ps5 \<Rightarrow>
     (case add_val (bind_name ''SCOMPANY'') aAfinaCompany ps5 of Inl e \<Rightarrow> Inl e | Inr ps6 \<Rightarrow>
     (case add_val (bind_name ''SLANGUAGE'') aAfinaInterfaceLanguage ps6 of Inl e \<Rightarrow> Inl e | Inr ps7 \<Rightarrow>
     (if \<not> aOldPackageSession then add_val (bind_name ''SBROWSER'') (JStr (browser d)) ps7
      else Inr ps7))))))))"

text \<open>
  The \<^verbatim>\<open>try\<close> block of \<^verbatim>\<open>logon\<close>: the logon statement, the informational query, its first
  row (\<^verbatim>\<open>undefined\<close> when there is none) with \<^verbatim>\<open>sessionID\<close> set on it (lodash's \<^verbatim>\<open>set\<close> returns
  \<^verbatim>\<open>undefined\<close> as it is).
\<close>

definition logon_try ::
  "env \<Rightarrow> connection \<Rightarrow> string \<Rightarrow> OraSqlParams \<Rightarrow> string \<Rightarrow> driver \<Rightarrow> (error + row option) \<times> driver" where
  "logon_try E lConnection sql params lSessionId d =
     (case conn_execute E lConnection sql (Some (Named params)) (Some []) d of
        (Inl e, d1) \<Rightarrow> (Inl e, d1)
      | (Inr r1, d1) \<Rightarrow>
     (case conn_execute E lConnection sqlInfo (Some (Named [])) (Some []) d1 of
        (Inl e, d2) \<Rightarrow> (Inl e, d2)
      | (Inr r2, d2) \<Rightarrow>
     (case rows r2 of
        None \<Rightarrow> (Inl (TypeError ''Cannot read property '0' of undefined''), d2)
      | Some [] \<Rightarrow> (Inr None, d2)
      | Some (resultInfo # rest) \<Rightarrow>
          (Inr (Some (AList.update ''sessionID'' (JStr lSessionId) resultInfo)), d2))))"

text \<open>
  \<^verbatim>\<open>logon\<close>: the schema switch stands between the lease and the \<^verbatim>\<open>try\<close>; the \<^verbatim>\<open>finally\<close>
  block closes the connection after \<open>logon_try\<close>, whatever its outcome.
\<close>

definition logon ::
  "env \<Rightarrow> jsval \<Rightarrow> jsval \<Rightarrow> jsval \<Rightarrow> jsval \<Rightarrow> jsval \<Rightarrow> bool option \<Rightarrow> driver
     \<Rightarrow> (error + row option) \<times> driver" where
  "logon E aAfinaUser aAfinaWebPassword aAfinaCompany aAfinaApplication aAfinaInterfaceLanguage
       aOldPackageSession d =
     (let old = (case aOldPackageSession of None \<Rightarrow> False | Some b \<Rightarrow> b)
      in case randomBytes E 24 d of
           (bytes, d0) \<Rightarrow>
        (let lSessionId = toString_hex bytes
         in case paramsLogin d0 lSessionId aAfinaUser aAfinaWebPassword aAfinaCompany
                   aAfinaApplication aAfinaInterfaceLanguage old of
              Inl e \<Rightarrow> (Inl e, d0)
            | Inr params \<Rightarrow>
           (case ensure_open E d0 of
              (Inl e, d1) \<Rightarrow> (Inl e, d1)
            | (Inr u, d1) \<Rightarrow>
           (case pool_getConnection E d1 of
              (Inl e, d2) \<Rightarrow> (Inl e, d2)
            | (Inr lConnection, d2) \<Rightarrow>
           (case conn_execute E lConnection (schema_sql d2) None None d2 of
              (Inl e, d3) \<Rightarrow> (Inl e, d3)
            | (Inr r0, d3) \<Rightarrow>
           (case logon_try E lConnection (sqlLogon old) params lSessionId d3 of
              (outcome, d4) \<Rightarrow>
           (case conn_close E lConnection d4 of
              (Inl e, d5) \<Rightarrow> (Inl e, d5)
            | (Inr u, d5) \<Rightarrow> (outcome, d5))))))))"

section \<open>Sample collaborators and inputs\<close>

definition sample_row :: row where
  "sample_row =
     [(''NCOMPANY'', JNum 42), (''SFULLUSERNAME'', JStr ''Supervisor''),
      (''SAPPNAME'', JStr ''Admin''), (''SCOMPANYFULLNAME'', JStr ''Org'')]"

definition sample_result :: result where
  "sample_result = \<lparr>rows = Some [sample_row], outBinds = None, rowsAffected = None\<rparr>"

text \<open>
  A database that creates pool 1, leases connection 7, rejects the statements listed in \<open>bad\<close>
  with \<^verbatim>\<open>ORA-20000\<close>, rejects \<^verbatim>\<open>close\<close> with \<^verbatim>\<open>DPI-1010\<close> when \<open>close_fails\<close>, rejects
  \<^verbatim>\<open>terminate\<close> with \<^verbatim>\<open>ORA-24422\<close> when \<open>terminate_fails\<close>, and whose random bytes are 0, 1, 2, ...
\<close>

definition sample_env :: "string list \<Rightarrow> bool \<Rightarrow> bool \<Rightarrow> env" where
  "sample_env bad close_fails terminate_fails =
     \<lparr>createPool_reply = (\<lambda>h u pw cs. Inr 1),
      getConnection_reply = (\<lambda>h p. Inr 7),
      execute_reply = (\<lambda>h c sql b opts. if sql \<in> set bad then Inl ''ORA-20000'' else Inr sample_result),
      close_reply = (\<lambda>h c. if close_fails then Some ''DPI-1010'' else None),
      terminate_reply = (\<lambda>h p. if terminate_fails then Some ''ORA-24422'' else None),
      random_byte = (\<lambda>h i. of_nat i)\<rparr>"

definition sample_config :: config where
  "sample_config =
     \<lparr>username = Some ''parus'', password = Some ''secret'',
      connectString = Some ''orcl'', schema = Some ''PARUS''\<rparr>"

definition opened_driver :: driver where
  "opened_driver =
     (new_driver sample_config)
       \<lparr>isOpened := True, pool := Some 1,
        calls := [CreatePool (Some ''parus'') (Some ''secret'') (Some ''orcl'')]\<rparr>"

section \<open>Reading the log\<close>

definition is_ConnClose :: "call \<Rightarrow> bool" where
  "is_ConnClose x = (case x of ConnClose c \<Rightarrow> True | _ \<Rightarrow> False)"

definition is_RandomBytes :: "call \<Rightarrow> bool" where
  "is_RandomBytes x = (case x of RandomBytes n \<Rightarrow> True | _ \<Rightarrow> False)"

text \<open>A call that neither releases a connection nor draws random bytes.\<close>

definition quiet :: "call \<Rightarrow> bool" where
  "quiet x = (\<not> is_ConnClose x \<and> \<not> is_RandomBytes x)"

definition lower_hex :: "char \<Rightarrow> bool" where
  "lower_hex ch = (ch \<in> set ''0123456789abcdef'')"

section \<open>Steps of the driver functions\<close>

lemmas sample_defs = sample_env_def sample_config_def new_driver_def opened_driver_def
  sample_result_def sample_row_def

lemmas step_defs = ensure_open_def open_def pool_getConnection_def conn_execute_def
  conn_close_def truthy_def template_def schema_sql_def Let_def

lemma quiet_simps [simp]:
  "quiet (CreatePool a b c)" "quiet (PoolGetConnection p)" "quiet (ConnExecute k s bs os)"
  "\<not> quiet (ConnClose k)" "\<not> quiet (RandomBytes n)"
  by (simp_all add: quiet_def is_ConnClose_def is_RandomBytes_def)

lemma count_list_quiet: "list_all quiet xs \<Longrightarrow> count_list xs (ConnClose c) = 0"
  by (induction xs) auto

lemma filter_close_quiet: "list_all quiet xs \<Longrightarrow> filter is_ConnClose xs = []"
  by (induction xs) (auto simp: quiet_def)

lemma open_opened: "isOpened d \<Longrightarrow> open E d = (Inr (), d)"
  by (simp add: open_def)

lemma open_success:
  assumes "open E d = (Inr u, d')"
  shows "isOpened d'"
  using assms
  by (auto simp: open_def Let_def split: if_splits sum.splits)

lemma open_creations:
  assumes "\<not> isOpened d" and "open E d = (Inr u, d')"
  shows "calls d' = calls d @ [CreatePool (dbUser d) (dbPassword d) (dbConnectionString d)]"
  using assms
  by (auto simp: open_def Let_def split: if_splits sum.splits)

lemma open_failure:
  assumes "open E d = (Inl e, d')"
  shows "pool d' = pool d \<and> isOpened d' = isOpened d \<and> \<not> isOpened d"
  using assms
  by (auto simp: open_def Let_def split: if_splits sum.splits)

lemma conn_execute_step:
  assumes "conn_execute E c sql b opts d = (r, d')"
  shows "d' = d\<lparr>calls := calls d @ [ConnExecute c sql b opts]\<rparr>"
    and "r = (case execute_reply E (calls d) c sql b opts of
                Inl e \<Rightarrow> Inl (Rejected e) | Inr x \<Rightarrow> Inr x)"
  using assms by (auto simp: conn_execute_def Let_def split: sum.splits)

lemma conn_close_step:
  assumes "conn_close E c d = (r, d')"
  shows "d' = d\<lparr>calls := calls d @ [ConnClose c]\<rparr>"
    and "r = (case close_reply E (calls d) c of Some e \<Rightarrow> Inl (Rejected e) | None \<Rightarrow> Inr ())"
  using assms by (auto simp: conn_close_def Let_def split: option.splits)

lemma pool_getConnection_step:
  assumes "pool_getConnection E d = (Inr c, d')"
  shows "\<exists>p. pool d = Some p \<and> d' = d\<lparr>calls := calls d @ [PoolGetConnection p]\<rparr> \<and>
             getConnection_reply E (calls d) p = Inr c"
  using assms by (auto simp: pool_getConnection_def Let_def split: option.splits sum.splits)

lemma ensure_open_step:
  assumes "ensure_open E d = (r, d')"
  shows "dbSchema d' = dbSchema d \<and> implementation d' = implementation d \<and>
         browser d' = browser d \<and>
         (\<exists>xs. calls d' = calls d @ xs \<and> (\<forall>x\<in>set xs. is_CreatePool x))"
  using assms
  by (auto simp: ensure_open_def open_def Let_def is_CreatePool_def split: if_splits sum.splits)

lemma conn_execute_log:
  "conn_execute E c sql b opts d = (r, d') \<Longrightarrow> calls d' = calls d @ [ConnExecute c sql b opts]"
  by (auto simp: conn_execute_def Let_def split: sum.splits)

lemma conn_close_log:
  "conn_close E c d = (r, d') \<Longrightarrow> calls d' = calls d @ [ConnClose c]"
  by (auto simp: conn_close_def Let_def split: option.splits)

lemma pool_getConnection_log:
  "pool_getConnection E d = (r, d') \<Longrightarrow> \<exists>xs. calls d' = calls d @ xs \<and> list_all quiet xs"
  by (auto simp: pool_getConnection_def Let_def split: option.splits sum.splits)

lemma ensure_open_log:
  "ensure_open E d = (r, d') \<Longrightarrow> \<exists>xs. calls d' = calls d @ xs \<and> list_all quiet xs"
  by (auto simp: ensure_open_def open_def Let_def split: if_splits sum.splits)

lemma getConnection_log:
  assumes "getConnection E tok d = (r, d')"
  shows "\<exists>xs. calls d' = calls d @ xs \<and> list_all quiet xs"
  using assms
  by (auto simp: getConnection_def split: prod.splits sum.splits
      dest!: ensure_open_log pool_getConnection_log conn_execute_log)

lemma getConnection_success:
  assumes "getConnection E aSessionId d = (Inr c, d')"
  shows "\<exists>u d1 d2 r1 r2.
           ensure_open E d = (Inr u, d1) \<and>
           pool_getConnection E d1 = (Inr c, d2) \<and>
           execute_reply E (calls d2) c (schema_sql d) None None = Inr r1 \<and>
           execute_reply E (calls d2 @ [ConnExecute c (schema_sql d) None None]) c validate_sql
              (Some (Positional [aSessionId])) None = Inr r2 \<and>
           d' = d2\<lparr>calls := calls d2 @
                  [ConnExecute c (schema_sql d) None None,
                   ConnExecute c validate_sql (Some (Positional [aSessionId])) None]\<rparr>"
proof -
  from assms obtain u d1 where o: "ensure_open E d = (Inr u, d1)"
    by (auto simp: getConnection_def split: prod.splits sum.splits)
  with assms obtain c0 d2 where g: "pool_getConnection E d1 = (Inr c0, d2)"
    by (auto simp: getConnection_def split: prod.splits sum.splits)
  with assms o obtain r1 d3 where s: "conn_execute E c0 (schema_sql d2) None None d2 = (Inr r1, d3)"
    by (auto simp: getConnection_def split: prod.splits sum.splits)
  with assms o g obtain r2 d4 where
    v: "conn_execute E c0 validate_sql (Some (Positional [aSessionId])) None d3 = (Inr r2, d4)"
    by (auto simp: getConnection_def split: prod.splits sum.splits)
  from assms o g s v have res: "c0 = c" "d4 = d'"
    by (simp_all add: getConnection_def)
  from ensure_open_step [OF o] pool_getConnection_step [OF g]
  have sch: "schema_sql d2 = schema_sql d"
    by (auto simp: schema_sql_def)
  from conn_execute_step [OF s] conn_execute_step [OF v] res sch o g
  show ?thesis
    by (auto split: sum.splits)
qed

lemma getConnection_sample:
  "getConnection (sample_env [''select 1 from nowhere''] cf tf) (JStr ''tok'') opened_driver =
     (Inr 7, opened_driver\<lparr>calls := calls opened_driver @
        [PoolGetConnection 1,
         ConnExecute 7 ''alter session set CURRENT_SCHEMA = PARUS'' None None,
         ConnExecute 7 validate_sql (Some (Positional [JStr ''tok''])) None]\<rparr>)"
  by (simp add: getConnection_def step_defs sample_defs validate_sql_def)

lemma paramsLogin_built:
  "paramsLogin d sid u pw co app lang old =
     Inr ([(''SCONNECT'', new_OraSqlParam\<lparr>val := Some (JStr sid)\<rparr>),
           (''SUTILIZER'', new_OraSqlParam\<lparr>val := Some u\<rparr>),
           (''SPASSWORD'', new_OraSqlParam\<lparr>val := Some pw\<rparr>),
           (''SIMPLEMENTATION'', new_OraSqlParam\<lparr>val := Some (JStr (implementation d))\<rparr>),
           (''SAPPLICATION'', new_OraSqlParam\<lparr>val := Some app\<rparr>),
           (''SCOMPANY'', new_OraSqlParam\<lparr>val := Some co\<rparr>),
           (''SLANGUAGE'', new_OraSqlParam\<lparr>val := Some lang\<rparr>)] @
          (if old then [] else [(''SBROWSER'', new_OraSqlParam\<lparr>val := Some (JStr (browser d))\<rparr>)]))"
  by (simp add: paramsLogin_def add_val_def add_def val_call_def val_method_def new_OraSqlParam_def
        bind_name_inverse plain_name_def)

lemma quiet_not_random: "list_all quiet xs \<Longrightarrow> list_all (\<lambda>x. \<not> is_RandomBytes x) xs"
  by (induction xs) (auto simp: quiet_def)

lemma not_random_simps [simp]:
  "\<not> is_RandomBytes (CreatePool a b c)" "\<not> is_RandomBytes (PoolGetConnection p)"
  "\<not> is_RandomBytes (ConnExecute k s bs os)" "\<not> is_RandomBytes (ConnClose k)"
  "\<not> is_RandomBytes (PoolTerminate p)" "is_RandomBytes (RandomBytes n)"
  by (simp_all add: is_RandomBytes_def)

lemma logon_try_success:
  assumes "logon_try E c sql ps sid d = (Inr row, d')"
  shows "calls d' = calls d @ [ConnExecute c sql (Some (Named ps)) (Some []),
                               ConnExecute c sqlInfo (Some (Named [])) (Some [])]"
    and "row = Some r \<Longrightarrow> map_of r ''sessionID'' = Some (JStr sid)"
  using assms
  by (auto simp: logon_try_def update_conv' split: prod.splits sum.splits option.splits list.splits
      dest!: conn_execute_log)

lemma logon_try_log:
  assumes "logon_try E c sql ps sid d = (r, d')"
  shows "\<exists>xs. calls d' = calls d @ xs \<and> list_all (\<lambda>x. \<not> is_RandomBytes x) xs"
  using assms
  by (auto simp: logon_try_def split: prod.splits sum.splits option.splits list.splits
      dest!: conn_execute_log)

lemma logon_log:
  assumes "logon E u pw co app lang flag d = (r, d')"
  shows "\<exists>rest. calls d' = calls d @ RandomBytes 24 # rest \<and>
                list_all (\<lambda>x. \<not> is_RandomBytes x) rest"
  using assms
  by (auto simp: logon_def Let_def randomBytes_def paramsLogin_built
      split: prod.splits sum.splits
      dest!: ensure_open_log pool_getConnection_log conn_execute_log logon_try_log conn_close_log
             quiet_not_random)

lemma logon_success:
  assumes "logon E u pw co app lang flag d = (Inr row, d')"
  shows "\<exists>c d3 d4 ps.
           paramsLogin d (toString_hex (map (random_byte E (calls d)) [0..<24]))
              u pw co app lang (flag = Some True) = Inr ps \<and>
           logon_try E c (sqlLogon (flag = Some True)) ps
              (toString_hex (map (random_byte E (calls d)) [0..<24])) d3 = (Inr row, d4) \<and>
           calls d' = calls d4 @ [ConnClose c]"
proof -
  have old: "(case flag of None \<Rightarrow> False | Some b \<Rightarrow> b) = (flag = Some True)"
    by (cases flag) auto
  from assms show ?thesis
    unfolding logon_def old
    by (auto simp: Let_def randomBytes_def paramsLogin_built
      split: prod.splits sum.splits dest!: conn_close_log) blast+
qed


lemma sqlLogon_legacy: "\<not> sublist ''SBROWSER'' (sqlLogon True)"
  unfolding sqlLogon_def by code_simp

lemma sqlLogon_default: "sublist ''SBROWSER        => :SBROWSER,'' (sqlLogon False)"
  unfolding sqlLogon_def by code_simp

lemma length_toString_hex: "length (toString_hex bs) = 2 * length bs"
  by (induction bs) (simp_all add: toString_hex_def hex_of_byte_def)

lemma hex_digit_lower: "n < 16 \<Longrightarrow> lower_hex (hex_digit n)"
  unfolding lower_hex_def hex_digit_def by (rule nth_mem) simp

lemma hex_of_byte_lower: "list_all lower_hex (hex_of_byte b)"
proof -
  have "unat b < 256" using unsigned_less [of b] by simp
  then have "unat b div 16 < 16" by simp
  moreover have "unat b mod 16 < 16" by simp
  ultimately show ?thesis
    by (simp add: hex_of_byte_def hex_digit_lower)
qed

lemma toString_hex_lower: "list_all lower_hex (toString_hex bs)"
  by (induction bs) (simp_all add: toString_hex_def hex_of_byte_lower)

lemma sample_token:
  "toString_hex (map (\<lambda>i. of_nat i) [0..<24]) =
     ''000102030405060708090a0b0c0d0e0f1011121314151617''"
  by code_simp

lemma logon_sample:
  "logon (sample_env [] False False) (JStr ''u'') (JStr ''p'') JUndefined JUndefined JUndefined flag
     (new_driver sample_config) =
   (Inr (Some (sample_row @
       [(''sessionID'', JStr ''000102030405060708090a0b0c0d0e0f1011121314151617'')])),
    opened_driver\<lparr>calls :=
      [RandomBytes 24,
       CreatePool (Some ''parus'') (Some ''secret'') (Some ''orcl''),
       PoolGetConnection 1,
       ConnExecute 7 ''alter session set CURRENT_SCHEMA = PARUS'' None None,
       ConnExecute 7 (sqlLogon (flag = Some True))
         (Some (Named
           ([(''SCONNECT'', new_OraSqlParam
                \<lparr>val := Some (JStr ''000102030405060708090a0b0c0d0e0f1011121314151617'')\<rparr>),
             (''SUTILIZER'', new_OraSqlParam\<lparr>val := Some (JStr ''u'')\<rparr>),
             (''SPASSWORD'', new_OraSqlParam\<lparr>val := Some (JStr ''p'')\<rparr>),
             (''SIMPLEMENTATION'', new_OraSqlParam\<lparr>val := Some (JStr ''AdminOnline'')\<rparr>),
             (''SAPPLICATION'', new_OraSqlParam\<lparr>val := Some JUndefined\<rparr>),
             (''SCOMPANY'', new_OraSqlParam\<lparr>val := Some JUndefined\<rparr>),
             (''SLANGUAGE'', new_OraSqlParam\<lparr>val := Some JUndefined\<rparr>)] @
            (if flag = Some True then []
             else [(''SBROWSER'', new_OraSqlParam\<lparr>val := Some (JStr ''Afina Oracle Driver'')\<rparr>)]))))
         (Some []),
       ConnExecute 7 sqlInfo (Some (Named [])) (Some []),
       ConnClose 7]\<rparr>)"
proof -
  have old: "(case flag of None \<Rightarrow> False | Some b \<Rightarrow> b) = (flag = Some True)"
    by (cases flag) auto
  have rb: "randomBytes (sample_env [] False False) 24 (new_driver sample_config) =
              (map (random_byte (sample_env [] False False) []) [0..<24],
               (new_driver sample_config)\<lparr>calls := [RandomBytes 24]\<rparr>)"
    by (simp add: randomBytes_def new_driver_def)
  show ?thesis
    unfolding logon_def old rb
    by (simp add: sample_token paramsLogin_built logon_try_def step_defs sample_defs
          del: upt_Suc)
qed

text \<open>
  Where \<^verbatim>\<open>logon\<close> releases its connection and where it does not: once the schema switch
  has succeeded, the call ends with one \<^verbatim>\<open>close\<close> of the leased connection, on every outcome
  of the \<^verbatim>\<open>try\<close> block; when the schema switch is rejected, the call ends there.
\<close>

lemma logon_try_quiet:
  assumes "logon_try E c sql ps sid d = (r, d')"
  shows "\<exists>xs. calls d' = calls d @ xs \<and> list_all quiet xs"
  using assms
  by (auto simp: logon_try_def split: prod.splits sum.splits option.splits list.splits
      dest!: conn_execute_log)

lemma logon_release_after_schema_switch:
  assumes "ensure_open E (snd (randomBytes E 24 d)) = (Inr u, d1)"
    and "pool_getConnection E d1 = (Inr c, d2)"
    and "conn_execute E c (schema_sql d2) None None d2 = (Inr r0, d3)"
  shows "\<exists>xs. calls (snd (logon E us pw co app lang flag d)) = calls d3 @ xs @ [ConnClose c] \<and>
              list_all quiet xs"
  using assms
  by (auto simp: logon_def Let_def randomBytes_def paramsLogin_built
      split: prod.splits sum.splits dest!: logon_try_quiet conn_close_log)

lemma logon_leak_on_schema_switch_failure:
  assumes "ensure_open E (snd (randomBytes E 24 d)) = (Inr u, d1)"
    and "pool_getConnection E d1 = (Inr c, d2)"
    and "conn_execute E c (schema_sql d2) None None d2 = (Inl e, d3)"
  shows "logon E us pw co app lang flag d = (Inl e, d3)"
    and "\<exists>xs p. calls d3 = calls d @ RandomBytes 24 # xs @
                    [PoolGetConnection p, ConnExecute c (schema_sql d2) None None] \<and>
                 list_all is_CreatePool xs"
proof -
  show "logon E us pw co app lang flag d = (Inl e, d3)"
    using assms
    by (simp add: logon_def Let_def randomBytes_def paramsLogin_built)
  from ensure_open_step [OF assms(1)] obtain xs where
    xs: "calls d1 = calls d @ RandomBytes 24 # xs" "\<forall>x\<in>set xs. is_CreatePool x"
    by (auto simp: randomBytes_def)
  from pool_getConnection_step [OF assms(2)] obtain p where
    p: "calls d2 = calls d1 @ [PoolGetConnection p]" by auto
  from conn_execute_log [OF assms(3)] xs p
  show "\<exists>xs p. calls d3 = calls d @ RandomBytes 24 # xs @
                    [PoolGetConnection p, ConnExecute c (schema_sql d2) None None] \<and>
                 list_all is_CreatePool xs"
    by (auto simp: list_all_iff)
qed

text \<open>
  The shadowing of \<^verbatim>\<open>add\<close>, and what \<^verbatim>\<open>getConnection\<close>, an internally scoped \<^verbatim>\<open>execute\<close> and
  \<^verbatim>\<open>logoff\<close> return in terms of the collaborators' answers.
\<close>

lemma add_shadow_example:
  "add_val (bind_name ''add'') (JNum 1) [] = Inr [(''add'', new_OraSqlParam\<lparr>val := Some (JNum 1)\<rparr>)]"
  "add (bind_name ''SNAME'') [(''add'', new_OraSqlParam\<lparr>val := Some (JNum 1)\<rparr>)] =
     Inl (TypeError ''add is not a function'')"
  by (simp_all add: add_val_def add_def val_call_def val_method_def new_OraSqlParam_def
        bind_name_inverse plain_name_def)

lemma getConnection_failure_validate:
  assumes "ensure_open E d = (Inr u, d1)"
    and "pool d1 = Some p"
    and "getConnection_reply E (calls d1) p = Inr c"
    and "execute_reply E (calls d1 @ [PoolGetConnection p]) c (schema_sql d) None None = Inr r1"
    and "execute_reply E
           (calls d1 @ [PoolGetConnection p, ConnExecute c (schema_sql d) None None]) c
           validate_sql (Some (Positional [tok])) None = Inl x"
  shows "getConnection E tok d =
           (Inl (Rejected x),
            d1\<lparr>calls := calls d1 @
               [PoolGetConnection p, ConnExecute c (schema_sql d) None None,
                ConnExecute c validate_sql (Some (Positional [tok])) None]\<rparr>)"
proof -
  from ensure_open_step [OF assms(1)] have "schema_sql d1 = schema_sql d"
    by (simp add: schema_sql_def)
  with assms show ?thesis
    by (simp add: getConnection_def pool_getConnection_def conn_execute_def Let_def schema_sql_def)
qed

lemma getConnection_returns_iff:
  "getConnection E tok d = (Inr c, d') \<longleftrightarrow>
     (\<exists>u d1 p r1 r2.
        ensure_open E d = (Inr u, d1) \<and> pool d1 = Some p \<and>
        getConnection_reply E (calls d1) p = Inr c \<and>
        execute_reply E (calls d1 @ [PoolGetConnection p]) c (schema_sql d) None None = Inr r1 \<and>
        execute_reply E
           (calls d1 @ [PoolGetConnection p, ConnExecute c (schema_sql d) None None]) c
           validate_sql (Some (Positional [tok])) None = Inr r2 \<and>
        d' = d1\<lparr>calls := calls d1 @
               [PoolGetConnection p, ConnExecute c (schema_sql d) None None,
                ConnExecute c validate_sql (Some (Positional [tok])) None]\<rparr>)"
proof
  assume h: "getConnection E tok d = (Inr c, d')"
  from getConnection_success [OF h] obtain u d1 d2 r1 r2 where
    o: "ensure_open E d = (Inr u, d1)" and
    g: "pool_getConnection E d1 = (Inr c, d2)" and
    s: "execute_reply E (calls d2) c (schema_sql d) None None = Inr r1" and
    v: "execute_reply E (calls d2 @ [ConnExecute c (schema_sql d) None None]) c validate_sql
              (Some (Positional [tok])) None = Inr r2" and
    l: "d' = d2\<lparr>calls := calls d2 @
                  [ConnExecute c (schema_sql d) None None,
                   ConnExecute c validate_sql (Some (Positional [tok])) None]\<rparr>"
    by blast
  from pool_getConnection_step [OF g] obtain p where
    p: "pool d1 = Some p" "d2 = d1\<lparr>calls := calls d1 @ [PoolGetConnection p]\<rparr>"
       "getConnection_reply E (calls d1) p = Inr c"
    by blast
  from o p s v l show "\<exists>u d1 p r1 r2.
        ensure_open E d = (Inr u, d1) \<and> pool d1 = Some p \<and>
        getConnection_reply E (calls d1) p = Inr c \<and>
        execute_reply E (calls d1 @ [PoolGetConnection p]) c (schema_sql d) None None = Inr r1 \<and>
        execute_reply E
           (calls d1 @ [PoolGetConnection p, ConnExecute c (schema_sql d) None None]) c
           validate_sql (Some (Positional [tok])) None = Inr r2 \<and>
        d' = d1\<lparr>calls := calls d1 @
               [PoolGetConnection p, ConnExecute c (schema_sql d) None None,
                ConnExecute c validate_sql (Some (Positional [tok])) None]\<rparr>"
    by auto
next
  assume "\<exists>u d1 p r1 r2.
        ensure_open E d = (Inr u, d1) \<and> pool d1 = Some p \<and>
        getConnection_reply E (calls d1) p = Inr c \<and>
        execute_reply E (calls d1 @ [PoolGetConnection p]) c (schema_sql d) None None = Inr r1 \<and>
        execute_reply E
           (calls d1 @ [PoolGetConnection p, ConnExecute c (schema_sql d) None None]) c
           validate_sql (Some (Positional [tok])) None = Inr r2 \<and>
        d' = d1\<lparr>calls := calls d1 @
               [PoolGetConnection p, ConnExecute c (schema_sql d) None None,
                ConnExecute c validate_sql (Some (Positional [tok])) None]\<rparr>"
  then obtain u d1 p r1 r2 where
    o: "ensure_open E d = (Inr u, d1)" and p: "pool d1 = Some p" and
    g: "getConnection_reply E (calls d1) p = Inr c" and
    s: "execute_reply E (calls d1 @ [PoolGetConnection p]) c (schema_sql d) None None = Inr r1" and
    v: "execute_reply E
           (calls d1 @ [PoolGetConnection p, ConnExecute c (schema_sql d) None None]) c
           validate_sql (Some (Positional [tok])) None = Inr r2" and
    l: "d' = d1\<lparr>calls := calls d1 @
               [PoolGetConnection p, ConnExecute c (schema_sql d) None None,
                ConnExecute c validate_sql (Some (Positional [tok])) None]\<rparr>"
    by blast
  from ensure_open_step [OF o] have "schema_sql d1 = schema_sql d"
    by (simp add: schema_sql_def)
  with o p g s v l show "getConnection E tok d = (Inr c, d')"
    by (simp add: getConnection_def pool_getConnection_def conn_execute_def Let_def schema_sql_def)
qed

lemma execute_internal_outcome:
  "execute E tok sql (Some b) None None d =
     (case getConnection E tok d of
        (Inl e, d1) \<Rightarrow> (Inl e, d1)
      | (Inr c, d1) \<Rightarrow>
          (case close_reply E (calls d1 @ [ConnExecute c sql (Some b) (Some [])]) c of
             Some x \<Rightarrow> Inl (Rejected x)
           | None \<Rightarrow>
               (case execute_reply E (calls d1) c sql (Some b) (Some []) of
                  Inl x \<Rightarrow> Inl (Rejected x)
                | Inr r \<Rightarrow> Inr r),
           d1\<lparr>calls := calls d1 @ [ConnExecute c sql (Some b) (Some []), ConnClose c]\<rparr>))"
  by (simp add: execute_def conn_execute_def conn_close_def Let_def
      split: prod.splits sum.splits option.splits)


lemma logoff_zero_iff:
  "fst (logoff E tok d) = Inr 0 \<longleftrightarrow>
     (\<exists>c d1 r. getConnection E tok d = (Inr c, d1) \<and>
        execute_reply E (calls d1) c logoff_sql (Some (Positional [tok])) (Some []) = Inr r \<and>
        close_reply E
          (calls d1 @ [ConnExecute c logoff_sql (Some (Positional [tok])) (Some [])]) c = None)"
  by (auto simp: logoff_def execute_internal_outcome split: prod.splits sum.splits option.splits)

lemma logoff_range:
  "fst (logoff E tok d) = Inr 0 \<or> fst (logoff E tok d) = Inr (- 1)"
  by (auto simp: logoff_def split: prod.splits sum.splits)

lemma logoff_binder_failure:
  assumes "getConnection E tok d = (Inl e, d1)"
  shows "logoff E tok d = (Inr (- 1), d1)"
  using assms by (simp add: logoff_def execute_internal_outcome)

lemma logoff_close_failure:
  assumes "getConnection E tok d = (Inr c, d1)"
    and "close_reply E
          (calls d1 @ [ConnExecute c logoff_sql (Some (Positional [tok])) (Some [])]) c = Some y"
  shows "logoff E tok d =
           (Inr (- 1),
            d1\<lparr>calls := calls d1 @
               [ConnExecute c logoff_sql (Some (Positional [tok])) (Some []), ConnClose c]\<rparr>)"
  using assms by (simp add: logoff_def execute_internal_outcome)


lemma logoff_zero_deep:
  "fst (logoff E tok d) = Inr 0 \<longleftrightarrow>
      (\<exists>u d1 p c r1 r2 r3.
         ensure_open E d = (Inr u, d1) \<and> pool d1 = Some p \<and>
         getConnection_reply E (calls d1) p = Inr c \<and>
         execute_reply E (calls d1 @ [PoolGetConnection p]) c (schema_sql d) None None = Inr r1 \<and>
         execute_reply E
            (calls d1 @ [PoolGetConnection p, ConnExecute c (schema_sql d) None None])
            c validate_sql (Some (Positional [tok])) None = Inr r2 \<and>
         execute_reply E
            (calls d1 @
               [PoolGetConnection p, ConnExecute c (schema_sql d) None None,
                ConnExecute c validate_sql (Some (Positional [tok])) None])
            c logoff_sql (Some (Positional [tok])) (Some []) = Inr r3 \<and>
         close_reply E
            (calls d1 @
               [PoolGetConnection p, ConnExecute c (schema_sql d) None None,
                ConnExecute c validate_sql (Some (Positional [tok])) None,
                ConnExecute c logoff_sql (Some (Positional [tok])) (Some [])])
            c = None)"
  (is "?lhs \<longleftrightarrow> ?rhs")
proof
  assume ?lhs
  then obtain c b r where
    g: "getConnection E tok d = (Inr c, b)" and
    x: "execute_reply E (calls b) c logoff_sql (Some (Positional [tok])) (Some []) = Inr r" and
    z: "close_reply E
          (calls b @ [ConnExecute c logoff_sql (Some (Positional [tok])) (Some [])]) c = None"
    unfolding logoff_zero_iff by blast
  from g obtain u d1 p r1 r2 where
    o: "ensure_open E d = (Inr u, d1)" and p: "pool d1 = Some p" and
    l: "getConnection_reply E (calls d1) p = Inr c" and
    s: "execute_reply E (calls d1 @ [PoolGetConnection p]) c (schema_sql d) None None = Inr r1" and
    v: "execute_reply E
           (calls d1 @ [PoolGetConnection p, ConnExecute c (schema_sql d) None None]) c
           validate_sql (Some (Positional [tok])) None = Inr r2" and
    b: "b = d1\<lparr>calls := calls d1 @
               [PoolGetConnection p, ConnExecute c (schema_sql d) None None,
                ConnExecute c validate_sql (Some (Positional [tok])) None]\<rparr>"
    unfolding getConnection_returns_iff by blast
  from x z have
    "execute_reply E
            (calls d1 @
               [PoolGetConnection p, ConnExecute c (schema_sql d) None None,
                ConnExecute c validate_sql (Some (Positional [tok])) None])
            c logoff_sql (Some (Positional [tok])) (Some []) = Inr r"
    "close_reply E
            (calls d1 @
               [PoolGetConnection p, ConnExecute c (schema_sql d) None None,
                ConnExecute c validate_sql (Some (Positional [tok])) None,
                ConnExecute c logoff_sql (Some (Positional [tok])) (Some [])])
            c = None"
    by (simp_all add: b)
  with o p l s v show ?rhs by blast
next
  assume ?rhs
  then obtain u d1 p c r1 r2 r3 where
    o: "ensure_open E d = (Inr u, d1)" and p: "pool d1 = Some p" and
    l: "getConnection_reply E (calls d1) p = Inr c" and
    s: "execute_reply E (calls d1 @ [PoolGetConnection p]) c (schema_sql d) None None = Inr r1" and
    v: "execute_reply E
           (calls d1 @ [PoolGetConnection p, ConnExecute c (schema_sql d) None None]) c
           validate_sql (Some (Positional [tok])) None = Inr r2" and
    x: "execute_reply E
            (calls d1 @
               [PoolGetConnection p, ConnExecute c (schema_sql d) None None,
                ConnExecute c validate_sql (Some (Positional [tok])) None])
            c logoff_sql (Some (Positional [tok])) (Some []) = Inr r3" and
    z: "close_reply E
            (calls d1 @
               [PoolGetConnection p, ConnExecute c (schema_sql d) None None,
                ConnExecute c validate_sql (Some (Positional [tok])) None,
                ConnExecute c logoff_sql (Some (Positional [tok])) (Some [])])
            c = None"
    by blast
  let ?b = "d1\<lparr>calls := calls d1 @
               [PoolGetConnection p, ConnExecute c (schema_sql d) None None,
                ConnExecute c validate_sql (Some (Positional [tok])) None]\<rparr>"
  from o p l s v have g: "getConnection E tok d = (Inr c, ?b)"
    unfolding getConnection_returns_iff by blast
  from x have x': "execute_reply E (calls ?b) c logoff_sql (Some (Positional [tok])) (Some []) = Inr r3"
    by simp
  from z have z': "close_reply E
          (calls ?b @ [ConnExecute c logoff_sql (Some (Positional [tok])) (Some [])]) c = None"
    by simp
  from g x' z' show ?lhs
    unfolding logoff_zero_iff by blast
qed

lemma getConnection_sample_ok:
  "getConnection (sample_env [] cf tf) (JStr ''tok'') opened_driver =
     (Inr 7, opened_driver\<lparr>calls := calls opened_driver @
        [PoolGetConnection 1,
         ConnExecute 7 ''alter session set CURRENT_SCHEMA = PARUS'' None None,
         ConnExecute 7 validate_sql (Some (Positional [JStr ''tok''])) None]\<rparr>)"
  by (simp add: getConnection_def step_defs sample_defs validate_sql_def)

section \<open>Pool Manager\<close>

text \<open>
  Claim C5. \<^verbatim>\<open>open()\<close> is idempotent. On a driver that is already open it makes no call and
  returns the driver as it is. Whenever it succeeds the driver is open afterwards, a second
  \<^verbatim>\<open>open()\<close> right after it changes nothing, and over the two calls the log has grown by
  exactly one pool creation when the driver was closed at the start (by none when it was
  open).
\<close>

theorem open_idempotent:
  "(isOpened d \<longrightarrow> open E d = (Inr (), d)) \<and>
   (open E d = (Inr u, d1) \<longrightarrow>
      isOpened d1 \<and> open E d1 = (Inr (), d1) \<and>
      pool_creations (calls d1) = pool_creations (calls d) + (if isOpened d then 0 else 1))"
proof (intro conjI impI)
  assume "isOpened d"
  then show "open E d = (Inr (), d)" by (rule open_opened)
next
  assume h: "open E d = (Inr u, d1)"
  then show o1: "isOpened d1" by (rule open_success)
  then show "open E d1 = (Inr (), d1)" by (rule open_opened)
  show "pool_creations (calls d1) = pool_creations (calls d) + (if isOpened d then 0 else 1)"
  proof (cases "isOpened d")
    case True
    with h have "d1 = d" by (simp add: open_opened)
    with True show ?thesis by simp
  next
    case False
    from open_creations [OF False h] False show ?thesis
      by (simp add: pool_creations_def is_CreatePool_def)
  qed
qed

theorem open_idempotent_witness:
  "\<not> isOpened (new_driver sample_config) \<and>
   open (sample_env [] False False) (new_driver sample_config) = (Inr (), opened_driver) \<and>
   isOpened opened_driver \<and>
   open (sample_env [] False False) opened_driver = (Inr (), opened_driver) \<and>
   pool_creations (calls (new_driver sample_config)) = 0 \<and>
   pool_creations (calls opened_driver) = 1"
proof -
  have h: "open (sample_env [] False False) (new_driver sample_config) = (Inr (), opened_driver)"
    by (simp add: open_def sample_defs truthy_def Let_def)
  have c0: "pool_creations (calls (new_driver sample_config)) = 0"
    "\<not> isOpened (new_driver sample_config)"
    by (simp_all add: new_driver_def pool_creations_def)
  from open_idempotent [of "new_driver sample_config" "sample_env [] False False" "()" opened_driver]
    h c0
  show ?thesis by simp
qed

section \<open>Statement Executor\<close>

text \<open>
  Claim C3. When \<^verbatim>\<open>execute\<close> is given an existing connection \<open>c\<close>, the only call it makes is
  the statement on \<open>c\<close>: on the success path and on the error path alike the driver is as
  before with that one call added to the log, the caller receives the outcome of the
  statement, and for no connection does the number of \<^verbatim>\<open>close\<close> calls in the log change.
\<close>

theorem execute_external_not_closed:
  fixes aBindParams aExecuteOptions c aSql
  defines "stmt \<equiv> ConnExecute c aSql
                    (Some (case aBindParams of None \<Rightarrow> Positional [] | Some b \<Rightarrow> b))
                    (Some (case aExecuteOptions of None \<Rightarrow> [] | Some opts \<Rightarrow> opts))"
  shows "snd (execute E aSessionId aSql aBindParams aExecuteOptions (Some c) d) =
           d\<lparr>calls := calls d @ [stmt]\<rparr> \<and>
         (\<forall>k. count_list (calls (snd (execute E aSessionId aSql aBindParams aExecuteOptions (Some c) d)))
                 (ConnClose k) = count_list (calls d) (ConnClose k)) \<and>
         fst (execute E aSessionId aSql aBindParams aExecuteOptions (Some c) d) =
           (case execute_reply E (calls d) c aSql
                   (Some (case aBindParams of None \<Rightarrow> Positional [] | Some b \<Rightarrow> b))
                   (Some (case aExecuteOptions of None \<Rightarrow> [] | Some opts \<Rightarrow> opts)) of
              Inl e \<Rightarrow> Inl (Rejected e)
            | Inr r \<Rightarrow> Inr r)"
proof -
  obtain outcome d2 where
    run: "conn_execute E c aSql
            (Some (case aBindParams of None \<Rightarrow> Positional [] | Some b \<Rightarrow> b))
            (Some (case aExecuteOptions of None \<Rightarrow> [] | Some opts \<Rightarrow> opts)) d = (outcome, d2)"
    by (cases "conn_execute E c aSql
            (Some (case aBindParams of None \<Rightarrow> Positional [] | Some b \<Rightarrow> b))
            (Some (case aExecuteOptions of None \<Rightarrow> [] | Some opts \<Rightarrow> opts)) d")
  then have whole: "execute E aSessionId aSql aBindParams aExecuteOptions (Some c) d = (outcome, d2)"
    by (simp add: execute_def Let_def)
  from conn_execute_step [OF run] have
    d2: "d2 = d\<lparr>calls := calls d @ [stmt]\<rparr>" and
    outcome: "outcome =
      (case execute_reply E (calls d) c aSql
              (Some (case aBindParams of None \<Rightarrow> Positional [] | Some b \<Rightarrow> b))
              (Some (case aExecuteOptions of None \<Rightarrow> [] | Some opts \<Rightarrow> opts)) of
         Inl e \<Rightarrow> Inl (Rejected e)
       | Inr r \<Rightarrow> Inr r)"
    by (simp_all add: stmt_def)
  have "count_list (calls d2) (ConnClose k) = count_list (calls d) (ConnClose k)" for k
    by (simp add: d2 stmt_def)
  with whole d2 outcome show ?thesis by simp
qed

text \<open>
  Claim C1, as the code has it. When \<^verbatim>\<open>execute\<close> is given no connection and the Session
  Binder returns connection \<open>c\<close>, the call runs the statement on \<open>c\<close> and then closes \<open>c\<close>, in
  that order and on both outcomes of the statement, so that the \<^verbatim>\<open>close\<close> calls made during
  the call are exactly one, on \<open>c\<close>. The caller receives the outcome of the statement unchanged
  (its result, or its error) when that \<^verbatim>\<open>close\<close> call succeeds; when the \<^verbatim>\<open>close\<close> call is
  itself rejected, the caller receives the rejection of \<^verbatim>\<open>close\<close> instead.
\<close>

theorem execute_internal_release:
  fixes aBindParams aExecuteOptions c aSql
  defines "stmt \<equiv> ConnExecute c aSql
                    (Some (case aBindParams of None \<Rightarrow> Positional [] | Some b \<Rightarrow> b))
                    (Some (case aExecuteOptions of None \<Rightarrow> [] | Some opts \<Rightarrow> opts))"
  assumes "getConnection E aSessionId d = (Inr c, d1)"
  shows "calls (snd (execute E aSessionId aSql aBindParams aExecuteOptions None d)) =
           calls d1 @ [stmt, ConnClose c] \<and>
         (\<exists>new. calls (snd (execute E aSessionId aSql aBindParams aExecuteOptions None d)) =
                   calls d @ new \<and> filter is_ConnClose new = [ConnClose c]) \<and>
         fst (execute E aSessionId aSql aBindParams aExecuteOptions None d) =
           (case close_reply E (calls d1 @ [stmt]) c of
              Some e \<Rightarrow> Inl (Rejected e)
            | None \<Rightarrow>
                (case execute_reply E (calls d1) c aSql
                        (Some (case aBindParams of None \<Rightarrow> Positional [] | Some b \<Rightarrow> b))
                        (Some (case aExecuteOptions of None \<Rightarrow> [] | Some opts \<Rightarrow> opts)) of
                   Inl e \<Rightarrow> Inl (Rejected e)
                 | Inr r \<Rightarrow> Inr r))"
proof -
  from getConnection_log [OF assms(2)] obtain xs where
    xs: "calls d1 = calls d @ xs" "list_all quiet xs" by blast
  have log: "calls (snd (execute E aSessionId aSql aBindParams aExecuteOptions None d)) =
           calls d1 @ [stmt, ConnClose c]"
    using assms(2)
    by (simp add: execute_def stmt_def conn_execute_def conn_close_def Let_def
        split: sum.splits option.splits)
  have res: "fst (execute E aSessionId aSql aBindParams aExecuteOptions None d) =
           (case close_reply E (calls d1 @ [stmt]) c of
              Some e \<Rightarrow> Inl (Rejected e)
            | None \<Rightarrow>
                (case execute_reply E (calls d1) c aSql
                        (Some (case aBindParams of None \<Rightarrow> Positional [] | Some b \<Rightarrow> b))
                        (Some (case aExecuteOptions of None \<Rightarrow> [] | Some opts \<Rightarrow> opts)) of
                   Inl e \<Rightarrow> Inl (Rejected e)
                 | Inr r \<Rightarrow> Inr r))"
    using assms(2)
    by (simp add: execute_def stmt_def conn_execute_def conn_close_def Let_def
        split: sum.splits option.splits)
  have "filter is_ConnClose (xs @ [stmt, ConnClose c]) = [ConnClose c]"
    using filter_close_quiet [OF xs(2)] by (simp add: stmt_def is_ConnClose_def)
  with log xs(1)
  have "\<exists>new. calls (snd (execute E aSessionId aSql aBindParams aExecuteOptions None d)) =
                   calls d @ new \<and> filter is_ConnClose new = [ConnClose c]"
    by auto
  with log res show ?thesis by blast
qed

theorem execute_internal_release_witness:
  "getConnection (sample_env [''select 1 from nowhere''] False False) (JStr ''tok'') opened_driver =
     (Inr 7, opened_driver\<lparr>calls := calls opened_driver @
        [PoolGetConnection 1,
         ConnExecute 7 ''alter session set CURRENT_SCHEMA = PARUS'' None None,
         ConnExecute 7 validate_sql (Some (Positional [JStr ''tok''])) None]\<rparr>) \<and>
   calls (snd (execute (sample_env [''select 1 from nowhere''] False False) (JStr ''tok'')
                 ''select 1 from nowhere'' None None None opened_driver)) =
     [CreatePool (Some ''parus'') (Some ''secret'') (Some ''orcl''),
      PoolGetConnection 1,
      ConnExecute 7 ''alter session set CURRENT_SCHEMA = PARUS'' None None,
      ConnExecute 7 validate_sql (Some (Positional [JStr ''tok''])) None,
      ConnExecute 7 ''select 1 from nowhere'' (Some (Positional [])) (Some []),
      ConnClose 7] \<and>
   fst (execute (sample_env [''select 1 from nowhere''] False False) (JStr ''tok'')
          ''select 1 from nowhere'' None None None opened_driver) = Inl (Rejected ''ORA-20000'')"
proof -
  let ?E = "sample_env [''select 1 from nowhere''] False False"
  note h = getConnection_sample [of False False]
  have c: "close_reply ?E h 7 = None" for h
    by (simp add: sample_env_def)
  have x: "execute_reply ?E h 7 ''select 1 from nowhere'' b opts = Inl ''ORA-20000''" for h b opts
    by (simp add: sample_env_def)
  from execute_internal_release [OF h, of "''select 1 from nowhere''" None None] h
  show ?thesis
    by (simp add: c x opened_driver_def)
qed

text \<open>
  Claim C1 as it is written fails where the release is rejected: the statement is rejected
  with \<^verbatim>\<open>ORA-20000\<close>, the \<^verbatim>\<open>close\<close> in the \<^verbatim>\<open>finally\<close> block is rejected with \<^verbatim>\<open>DPI-1010\<close>
  (the connection is gone), and the caller receives \<^verbatim>\<open>DPI-1010\<close>.
\<close>

theorem execute_release_error_counterexample:
  "fst (getConnection (sample_env [''select 1 from nowhere''] True False) (JStr ''tok'')
          opened_driver) = Inr 7 \<and>
   execute_reply (sample_env [''select 1 from nowhere''] True False)
      (calls (snd (getConnection (sample_env [''select 1 from nowhere''] True False)
                     (JStr ''tok'') opened_driver)))
      7 ''select 1 from nowhere'' (Some (Positional [])) (Some []) = Inl ''ORA-20000'' \<and>
   fst (execute (sample_env [''select 1 from nowhere''] True False) (JStr ''tok'')
          ''select 1 from nowhere'' None None None opened_driver) = Inl (Rejected ''DPI-1010'')"
proof -
  let ?E = "sample_env [''select 1 from nowhere''] True False"
  note g = getConnection_sample [of True False]
  have c: "close_reply ?E h 7 = Some ''DPI-1010''" for h
    by (simp add: sample_env_def)
  have x: "execute_reply ?E h 7 ''select 1 from nowhere'' b opts = Inl ''ORA-20000''" for h b opts
    by (simp add: sample_env_def)
  show ?thesis
    by (simp add: execute_def g conn_execute_def conn_close_def Let_def c x)
qed

section \<open>Session Binder\<close>

text \<open>
  Claim C4. When \<^verbatim>\<open>getConnection(sessionToken)\<close> returns connection \<open>c\<close>, the end of the log
  reads: the lease that produced \<open>c\<close>, the schema switch to the configured schema on \<open>c\<close>, the
  validation statement on \<open>c\<close> with the session token as its only bind value; before them
  come pool creations only, and both statements were answered with a result. When the
  validation statement is rejected, \<^verbatim>\<open>getConnection\<close> fails with that very error and
  returns no connection.
\<close>

theorem getConnection_bound_before_return:
  "(getConnection E aSessionId d = (Inr c, d') \<longrightarrow>
      (\<exists>pre p r1 r2.
         calls d' = calls d @ pre @
           [PoolGetConnection p,
            ConnExecute c (''alter session set CURRENT_SCHEMA = '' @ template (dbSchema d)) None None,
            ConnExecute c ''begin PKG_SESSION.VALIDATE_WEB(SCONNECT => :SCONNECT); end;''
               (Some (Positional [aSessionId])) None] \<and>
         (\<forall>x\<in>set pre. is_CreatePool x) \<and>
         getConnection_reply E (calls d @ pre) p = Inr c \<and>
         execute_reply E (calls d @ pre @ [PoolGetConnection p]) c
            (''alter session set CURRENT_SCHEMA = '' @ template (dbSchema d)) None None = Inr r1 \<and>
         execute_reply E
            (calls d @ pre @
               [PoolGetConnection p,
                ConnExecute c (''alter session set CURRENT_SCHEMA = '' @ template (dbSchema d))
                   None None])
            c ''begin PKG_SESSION.VALIDATE_WEB(SCONNECT => :SCONNECT); end;''
            (Some (Positional [aSessionId])) None = Inr r2)) \<and>
   (ensure_open E2 b0 = (Inr u, b1) \<longrightarrow>
    pool_getConnection E2 b1 = (Inr c2, b2) \<longrightarrow>
    conn_execute E2 c2 (schema_sql b2) None None b2 = (Inr r, b3) \<longrightarrow>
    conn_execute E2 c2 validate_sql (Some (Positional [tok2])) None b3 = (Inl e, b4) \<longrightarrow>
      getConnection E2 tok2 b0 = (Inl e, b4))"
proof (intro conjI impI)
  assume h: "getConnection E aSessionId d = (Inr c, d')"
  from getConnection_success [OF h] obtain u d1 d2 r1 r2 where
    o: "ensure_open E d = (Inr u, d1)" and
    g: "pool_getConnection E d1 = (Inr c, d2)" and
    s: "execute_reply E (calls d2) c (schema_sql d) None None = Inr r1" and
    v: "execute_reply E (calls d2 @ [ConnExecute c (schema_sql d) None None]) c validate_sql
              (Some (Positional [aSessionId])) None = Inr r2" and
    l: "d' = d2\<lparr>calls := calls d2 @
                  [ConnExecute c (schema_sql d) None None,
                   ConnExecute c validate_sql (Some (Positional [aSessionId])) None]\<rparr>"
    by blast
  from ensure_open_step [OF o] obtain pre where
    pre: "calls d1 = calls d @ pre" "\<forall>x\<in>set pre. is_CreatePool x" by blast
  from pool_getConnection_step [OF g] obtain p where
    p: "calls d2 = calls d1 @ [PoolGetConnection p]" "getConnection_reply E (calls d1) p = Inr c"
    by auto
  show "\<exists>pre p r1 r2.
         calls d' = calls d @ pre @
           [PoolGetConnection p,
            ConnExecute c (''alter session set CURRENT_SCHEMA = '' @ template (dbSchema d)) None None,
            ConnExecute c ''begin PKG_SESSION.VALIDATE_WEB(SCONNECT => :SCONNECT); end;''
               (Some (Positional [aSessionId])) None] \<and>
         (\<forall>x\<in>set pre. is_CreatePool x) \<and>
         getConnection_reply E (calls d @ pre) p = Inr c \<and>
         execute_reply E (calls d @ pre @ [PoolGetConnection p]) c
            (''alter session set CURRENT_SCHEMA = '' @ template (dbSchema d)) None None = Inr r1 \<and>
         execute_reply E
            (calls d @ pre @
               [PoolGetConnection p,
                ConnExecute c (''alter session set CURRENT_SCHEMA = '' @ template (dbSchema d))
                   None None])
            c ''begin PKG_SESSION.VALIDATE_WEB(SCONNECT => :SCONNECT); end;''
            (Some (Positional [aSessionId])) None = Inr r2"
    apply (rule exI [of _ pre], rule exI [of _ p], rule exI [of _ r1], rule exI [of _ r2])
    using pre p s v l
    by (simp add: schema_sql_def validate_sql_def)
next
  assume "ensure_open E2 b0 = (Inr u, b1)"
    and "pool_getConnection E2 b1 = (Inr c2, b2)"
    and "conn_execute E2 c2 (schema_sql b2) None None b2 = (Inr r, b3)"
    and "conn_execute E2 c2 validate_sql (Some (Positional [tok2])) None b3 = (Inl e, b4)"
  then show "getConnection E2 tok2 b0 = (Inl e, b4)"
    by (simp add: getConnection_def)
qed

theorem getConnection_bound_before_return_witness:
  "getConnection (sample_env [] False False) (JStr ''tok'') (new_driver sample_config) =
     (Inr 7, opened_driver\<lparr>calls :=
        [CreatePool (Some ''parus'') (Some ''secret'') (Some ''orcl''),
         PoolGetConnection 1,
         ConnExecute 7 ''alter session set CURRENT_SCHEMA = PARUS'' None None,
         ConnExecute 7 ''begin PKG_SESSION.VALIDATE_WEB(SCONNECT => :SCONNECT); end;''
            (Some (Positional [JStr ''tok''])) None]\<rparr>) \<and>
   fst (getConnection
          (sample_env [''begin PKG_SESSION.VALIDATE_WEB(SCONNECT => :SCONNECT); end;''] False False)
          (JStr ''tok'') opened_driver) = Inl (Rejected ''ORA-20000'')"
proof -
  let ?E = "sample_env [] False False"
  let ?F = "sample_env [''begin PKG_SESSION.VALIDATE_WEB(SCONNECT => :SCONNECT); end;''] False False"
  let ?d' = "opened_driver\<lparr>calls :=
        [CreatePool (Some ''parus'') (Some ''secret'') (Some ''orcl''),
         PoolGetConnection 1,
         ConnExecute 7 ''alter session set CURRENT_SCHEMA = PARUS'' None None,
         ConnExecute 7 ''begin PKG_SESSION.VALIDATE_WEB(SCONNECT => :SCONNECT); end;''
            (Some (Positional [JStr ''tok''])) None]\<rparr>"
  let ?b2 = "opened_driver\<lparr>calls := calls opened_driver @ [PoolGetConnection 1]\<rparr>"
  let ?b3 = "?b2\<lparr>calls := calls ?b2 @
               [ConnExecute 7 ''alter session set CURRENT_SCHEMA = PARUS'' None None]\<rparr>"
  let ?b4 = "?b3\<lparr>calls := calls ?b3 @
               [ConnExecute 7 validate_sql (Some (Positional [JStr ''tok''])) None]\<rparr>"
  have h: "getConnection ?E (JStr ''tok'') (new_driver sample_config) = (Inr 7, ?d')"
    by (simp add: getConnection_def step_defs sample_defs validate_sql_def)
  have o: "ensure_open ?F opened_driver = (Inr (), opened_driver)"
    by (simp add: ensure_open_def opened_driver_def)
  have g: "pool_getConnection ?F opened_driver = (Inr 7, ?b2)"
    by (simp add: pool_getConnection_def sample_defs Let_def)
  have s: "conn_execute ?F 7 (schema_sql ?b2) None None ?b2 = (Inr sample_result, ?b3)"
    by (simp add: conn_execute_def schema_sql_def template_def sample_env_def sample_config_def
          new_driver_def opened_driver_def Let_def)
  have v: "conn_execute ?F 7 validate_sql (Some (Positional [JStr ''tok''])) None ?b3 =
             (Inl (Rejected ''ORA-20000''), ?b4)"
    by (simp add: conn_execute_def validate_sql_def sample_env_def Let_def)
  from getConnection_bound_before_return
         [of ?E "JStr ''tok''" "new_driver sample_config" 7 ?d'
             ?F opened_driver "()" opened_driver 7 ?b2 sample_result ?b3 "JStr ''tok''"
             "Rejected ''ORA-20000''" ?b4]
       h o g s v
  show ?thesis by simp
qed

section \<open>Session Lifecycle Manager: logoff\<close>

text \<open>
  An internally scoped \<^verbatim>\<open>execute\<close> returns only when the Session Binder, the statement and
  the release have all succeeded.
\<close>

lemma execute_internal_returns:
  assumes "execute E aSessionId aSql aBindParams aExecuteOptions None d = (Inr r, d')"
  shows "\<exists>c d1. getConnection E aSessionId d = (Inr c, d1) \<and>
           execute_reply E (calls d1) c aSql
              (Some (case aBindParams of None \<Rightarrow> Positional [] | Some b \<Rightarrow> b))
              (Some (case aExecuteOptions of None \<Rightarrow> [] | Some opts \<Rightarrow> opts)) = Inr r \<and>
           close_reply E (butlast (calls d')) c = None"
  using assms
  by (auto simp: execute_def conn_execute_def conn_close_def Let_def butlast_append
      split: prod.splits sum.splits option.splits)

text \<open>
  Claim C7, as the code has it. \<^verbatim>\<open>logoff(sessionToken)\<close> never throws: its outcome is 0 or -1
  for every input. It returns 0 exactly when nothing in its internally scoped executor call
  fails: the pool is open or opens, the lease, the schema switch, the validation of the
  token and the logoff statement are all answered, and the close of the connection
  succeeds. Every error is swallowed and gives -1. In particular a token whose validation
  is rejected gives -1, with no logoff statement sent; and a logoff statement that succeeds
  followed by a rejected close gives -1 as well.
\<close>

theorem logoff_never_throws:
  "(fst (logoff E aSessionId d) = Inr 0 \<or> fst (logoff E aSessionId d) = Inr (- 1)) \<and>
   (\<forall>e. fst (logoff E aSessionId d) \<noteq> Inl e) \<and>
   (fst (logoff E aSessionId d) = Inr 0 \<longleftrightarrow>
      (\<exists>u d1 p c r1 r2 r3.
         ensure_open E d = (Inr u, d1) \<and> pool d1 = Some p \<and>
         getConnection_reply E (calls d1) p = Inr c \<and>
         execute_reply E (calls d1 @ [PoolGetConnection p]) c
            (''alter session set CURRENT_SCHEMA = '' @ template (dbSchema d)) None None = Inr r1 \<and>
         execute_reply E
            (calls d1 @
               [PoolGetConnection p,
                ConnExecute c (''alter session set CURRENT_SCHEMA = '' @ template (dbSchema d))
                   None None])
            c ''begin PKG_SESSION.VALIDATE_WEB(SCONNECT => :SCONNECT); end;''
            (Some (Positional [aSessionId])) None = Inr r2 \<and>
         execute_reply E
            (calls d1 @
               [PoolGetConnection p,
                ConnExecute c (''alter session set CURRENT_SCHEMA = '' @ template (dbSchema d))
                   None None,
                ConnExecute c ''begin PKG_SESSION.VALIDATE_WEB(SCONNECT => :SCONNECT); end;''
                   (Some (Positional [aSessionId])) None])
            c ''begin PKG_SESSION.LOGOFF_WEB(SCONNECT => :SCONNECT); end;''
            (Some (Positional [aSessionId])) (Some []) = Inr r3 \<and>
         close_reply E
            (calls d1 @
               [PoolGetConnection p,
                ConnExecute c (''alter session set CURRENT_SCHEMA = '' @ template (dbSchema d))
                   None None,
                ConnExecute c ''begin PKG_SESSION.VALIDATE_WEB(SCONNECT => :SCONNECT); end;''
                   (Some (Positional [aSessionId])) None,
                ConnExecute c ''begin PKG_SESSION.LOGOFF_WEB(SCONNECT => :SCONNECT); end;''
                   (Some (Positional [aSessionId])) (Some [])])
            c = None)) \<and>
   (ensure_open E d = (Inr v, b1) \<longrightarrow> pool b1 = Some q \<longrightarrow>
    getConnection_reply E (calls b1) q = Inr k \<longrightarrow>
    execute_reply E (calls b1 @ [PoolGetConnection q]) k
       (''alter session set CURRENT_SCHEMA = '' @ template (dbSchema d)) None None = Inr s1 \<longrightarrow>
    execute_reply E
       (calls b1 @
          [PoolGetConnection q,
           ConnExecute k (''alter session set CURRENT_SCHEMA = '' @ template (dbSchema d))
              None None])
       k ''begin PKG_SESSION.VALIDATE_WEB(SCONNECT => :SCONNECT); end;''
       (Some (Positional [aSessionId])) None = Inl x \<longrightarrow>
      logoff E aSessionId d =
        (Inr (- 1),
         b1\<lparr>calls := calls b1 @
            [PoolGetConnection q,
             ConnExecute k (''alter session set CURRENT_SCHEMA = '' @ template (dbSchema d))
                None None,
             ConnExecute k ''begin PKG_SESSION.VALIDATE_WEB(SCONNECT => :SCONNECT); end;''
                (Some (Positional [aSessionId])) None]\<rparr>)) \<and>
   (getConnection E aSessionId d = (Inr k2, b2) \<longrightarrow>
    close_reply E
       (calls b2 @
          [ConnExecute k2 ''begin PKG_SESSION.LOGOFF_WEB(SCONNECT => :SCONNECT); end;''
             (Some (Positional [aSessionId])) (Some [])])
       k2 = Some y \<longrightarrow>
      logoff E aSessionId d =
        (Inr (- 1),
         b2\<lparr>calls := calls b2 @
            [ConnExecute k2 ''begin PKG_SESSION.LOGOFF_WEB(SCONNECT => :SCONNECT); end;''
               (Some (Positional [aSessionId])) (Some []),
             ConnClose k2]\<rparr>))"
proof (intro conjI impI allI)
  show range: "fst (logoff E aSessionId d) = Inr 0 \<or> fst (logoff E aSessionId d) = Inr (- 1)"
    by (rule logoff_range)
  fix e
  from range show "fst (logoff E aSessionId d) \<noteq> Inl e"
    by auto
next
  show "fst (logoff E aSessionId d) = Inr 0 \<longleftrightarrow>
      (\<exists>u d1 p c r1 r2 r3.
         ensure_open E d = (Inr u, d1) \<and> pool d1 = Some p \<and>
         getConnection_reply E (calls d1) p = Inr c \<and>
         execute_reply E (calls d1 @ [PoolGetConnection p]) c
            (''alter session set CURRENT_SCHEMA = '' @ template (dbSchema d)) None None = Inr r1 \<and>
         execute_reply E
            (calls d1 @
               [PoolGetConnection p,
                ConnExecute c (''alter session set CURRENT_SCHEMA = '' @ template (dbSchema d))
                   None None])
            c ''begin PKG_SESSION.VALIDATE_WEB(SCONNECT => :SCONNECT); end;''
            (Some (Positional [aSessionId])) None = Inr r2 \<and>
         execute_reply E
            (calls d1 @
               [PoolGetConnection p,
                ConnExecute c (''alter session set CURRENT_SCHEMA = '' @ template (dbSchema d))
                   None None,
                ConnExecute c ''begin PKG_SESSION.VALIDATE_WEB(SCONNECT => :SCONNECT); end;''
                   (Some (Positional [aSessionId])) None])
            c ''begin PKG_SESSION.LOGOFF_WEB(SCONNECT => :SCONNECT); end;''
            (Some (Positional [aSessionId])) (Some []) = Inr r3 \<and>
         close_reply E
            (calls d1 @
               [PoolGetConnection p,
                ConnExecute c (''alter session set CURRENT_SCHEMA = '' @ template (dbSchema d))
                   None None,
                ConnExecute c ''begin PKG_SESSION.VALIDATE_WEB(SCONNECT => :SCONNECT); end;''
                   (Some (Positional [aSessionId])) None,
                ConnExecute c ''begin PKG_SESSION.LOGOFF_WEB(SCONNECT => :SCONNECT); end;''
                   (Some (Positional [aSessionId])) (Some [])])
            c = None)"
    using logoff_zero_deep [of E aSessionId d]
    by (simp only: schema_sql_def validate_sql_def logoff_sql_def)
next
  assume "ensure_open E d = (Inr v, b1)" "pool b1 = Some q"
    "getConnection_reply E (calls b1) q = Inr k"
    "execute_reply E (calls b1 @ [PoolGetConnection q]) k
       (''alter session set CURRENT_SCHEMA = '' @ template (dbSchema d)) None None = Inr s1"
    "execute_reply E
       (calls b1 @
          [PoolGetConnection q,
           ConnExecute k (''alter session set CURRENT_SCHEMA = '' @ template (dbSchema d))
              None None])
       k ''begin PKG_SESSION.VALIDATE_WEB(SCONNECT => :SCONNECT); end;''
       (Some (Positional [aSessionId])) None = Inl x"
  then have "getConnection E aSessionId d =
           (Inl (Rejected x),
            b1\<lparr>calls := calls b1 @
               [PoolGetConnection q, ConnExecute k (schema_sql d) None None,
                ConnExecute k validate_sql (Some (Positional [aSessionId])) None]\<rparr>)"
    by (intro getConnection_failure_validate) (simp_all add: schema_sql_def validate_sql_def)
  from logoff_binder_failure [OF this]
  show "logoff E aSessionId d =
        (Inr (- 1),
         b1\<lparr>calls := calls b1 @
            [PoolGetConnection q,
             ConnExecute k (''alter session set CURRENT_SCHEMA = '' @ template (dbSchema d))
                None None,
             ConnExecute k ''begin PKG_SESSION.VALIDATE_WEB(SCONNECT => :SCONNECT); end;''
                (Some (Positional [aSessionId])) None]\<rparr>)"
    by (simp add: schema_sql_def validate_sql_def)
next
  assume "getConnection E aSessionId d = (Inr k2, b2)"
    and "close_reply E
       (calls b2 @
          [ConnExecute k2 ''begin PKG_SESSION.LOGOFF_WEB(SCONNECT => :SCONNECT); end;''
             (Some (Positional [aSessionId])) (Some [])])
       k2 = Some y"
  then show "logoff E aSessionId d =
        (Inr (- 1),
         b2\<lparr>calls := calls b2 @
            [ConnExecute k2 ''begin PKG_SESSION.LOGOFF_WEB(SCONNECT => :SCONNECT); end;''
               (Some (Positional [aSessionId])) (Some []),
             ConnClose k2]\<rparr>)"
    using logoff_close_failure [of E aSessionId d k2 b2 y]
    by (simp add: logoff_sql_def)
qed

theorem logoff_never_throws_witness:
  "fst (logoff (sample_env [] False False) (JStr ''tok'') opened_driver) = Inr 0 \<and>
   logoff (sample_env [''begin PKG_SESSION.VALIDATE_WEB(SCONNECT => :SCONNECT); end;''] False False)
      (JStr ''expired'') opened_driver =
     (Inr (- 1),
      opened_driver\<lparr>calls :=
        [CreatePool (Some ''parus'') (Some ''secret'') (Some ''orcl''),
         PoolGetConnection 1,
         ConnExecute 7 ''alter session set CURRENT_SCHEMA = PARUS'' None None,
         ConnExecute 7 ''begin PKG_SESSION.VALIDATE_WEB(SCONNECT => :SCONNECT); end;''
            (Some (Positional [JStr ''expired''])) None]\<rparr>) \<and>
   logoff (sample_env [] True False) (JStr ''tok'') opened_driver =
     (Inr (- 1),
      opened_driver\<lparr>calls :=
        [CreatePool (Some ''parus'') (Some ''secret'') (Some ''orcl''),
         PoolGetConnection 1,
         ConnExecute 7 ''alter session set CURRENT_SCHEMA = PARUS'' None None,
         ConnExecute 7 ''begin PKG_SESSION.VALIDATE_WEB(SCONNECT => :SCONNECT); end;''
            (Some (Positional [JStr ''tok''])) None,
         ConnExecute 7 ''begin PKG_SESSION.LOGOFF_WEB(SCONNECT => :SCONNECT); end;''
            (Some (Positional [JStr ''tok''])) (Some []),
         ConnClose 7]\<rparr>)"
proof -
  let ?E0 = "sample_env [] False False"
  let ?E1 = "sample_env [''begin PKG_SESSION.VALIDATE_WEB(SCONNECT => :SCONNECT); end;''] False False"
  let ?E2 = "sample_env [] True False"
  have zero: "fst (logoff ?E0 (JStr ''tok'') opened_driver) = Inr 0"
  proof -
    have "\<exists>u d1 p c r1 r2 r3.
         ensure_open ?E0 opened_driver = (Inr u, d1) \<and> pool d1 = Some p \<and>
         getConnection_reply ?E0 (calls d1) p = Inr c \<and>
         execute_reply ?E0 (calls d1 @ [PoolGetConnection p]) c
            (''alter session set CURRENT_SCHEMA = '' @ template (dbSchema opened_driver))
            None None = Inr r1 \<and>
         execute_reply ?E0
            (calls d1 @
               [PoolGetConnection p,
                ConnExecute c
                   (''alter session set CURRENT_SCHEMA = '' @ template (dbSchema opened_driver))
                   None None])
            c ''begin PKG_SESSION.VALIDATE_WEB(SCONNECT => :SCONNECT); end;''
            (Some (Positional [JStr ''tok''])) None = Inr r2 \<and>
         execute_reply ?E0
            (calls d1 @
               [PoolGetConnection p,
                ConnExecute c
                   (''alter session set CURRENT_SCHEMA = '' @ template (dbSchema opened_driver))
                   None None,
                ConnExecute c ''begin PKG_SESSION.VALIDATE_WEB(SCONNECT => :SCONNECT); end;''
                   (Some (Positional [JStr ''tok''])) None])
            c ''begin PKG_SESSION.LOGOFF_WEB(SCONNECT => :SCONNECT); end;''
            (Some (Positional [JStr ''tok''])) (Some []) = Inr r3 \<and>
         close_reply ?E0
            (calls d1 @
               [PoolGetConnection p,
                ConnExecute c
                   (''alter session set CURRENT_SCHEMA = '' @ template (dbSchema opened_driver))
                   None None,
                ConnExecute c ''begin PKG_SESSION.VALIDATE_WEB(SCONNECT => :SCONNECT); end;''
                   (Some (Positional [JStr ''tok''])) None,
                ConnExecute c ''begin PKG_SESSION.LOGOFF_WEB(SCONNECT => :SCONNECT); end;''
                   (Some (Positional [JStr ''tok''])) (Some [])])
            c = None"
      apply (rule exI [of _ "()"], rule exI [of _ opened_driver], rule exI [of _ 1],
             rule exI [of _ 7], rule exI [of _ sample_result], rule exI [of _ sample_result],
             rule exI [of _ sample_result])
      by (simp add: ensure_open_def sample_env_def opened_driver_def)
    with logoff_never_throws [where E = ?E0 and d = opened_driver and aSessionId = "JStr ''tok''",
           THEN conjunct2, THEN conjunct2, THEN conjunct1]
    show ?thesis by (rule iffD2)
  qed
  have o: "ensure_open ?E1 opened_driver = (Inr (), opened_driver)"
    by (simp add: ensure_open_def opened_driver_def)
  have p: "pool opened_driver = Some 1"
    by (simp add: opened_driver_def)
  have g: "getConnection_reply ?E1 (calls opened_driver) 1 = Inr 7"
    by (simp add: sample_env_def)
  have s: "execute_reply ?E1 (calls opened_driver @ [PoolGetConnection 1]) 7
       (''alter session set CURRENT_SCHEMA = '' @ template (dbSchema opened_driver)) None None =
       Inr sample_result"
    by (simp add: sample_env_def template_def opened_driver_def new_driver_def sample_config_def)
  have v: "execute_reply ?E1
       (calls opened_driver @
          [PoolGetConnection 1,
           ConnExecute 7 (''alter session set CURRENT_SCHEMA = '' @ template (dbSchema opened_driver))
              None None])
       7 ''begin PKG_SESSION.VALIDATE_WEB(SCONNECT => :SCONNECT); end;''
       (Some (Positional [JStr ''expired''])) None = Inl ''ORA-20000''"
    by (simp add: sample_env_def)
  note invalid = logoff_never_throws [where E = ?E1 and d = opened_driver
           and aSessionId = "JStr ''expired''",
           THEN conjunct2, THEN conjunct2, THEN conjunct2, THEN conjunct1,
           THEN mp, THEN mp, THEN mp, THEN mp, THEN mp, OF o p g s v]
  have c: "close_reply ?E2 h 7 = Some ''DPI-1010''" for h
    by (simp add: sample_env_def)
  note closing = logoff_never_throws [where E = ?E2 and d = opened_driver
           and aSessionId = "JStr ''tok''",
           THEN conjunct2, THEN conjunct2, THEN conjunct2, THEN conjunct2,
           THEN mp, THEN mp, OF getConnection_sample_ok c]
  from zero invalid closing show ?thesis
    by (simp add: template_def opened_driver_def new_driver_def sample_config_def validate_sql_def)
qed

text \<open>
  Claim C7 as it is written fails where the release is rejected: the logoff statement is
  answered with a result, the \<^verbatim>\<open>close\<close> in the executor's \<^verbatim>\<open>finally\<close> block is rejected with
  \<^verbatim>\<open>DPI-1010\<close>, and \<^verbatim>\<open>logoff\<close> returns -1 although its statement succeeded.
\<close>

theorem logoff_close_rejected_counterexample:
  "fst (getConnection (sample_env [] True False) (JStr ''tok'') opened_driver) = Inr 7 \<and>
   execute_reply (sample_env [] True False)
      (calls (snd (getConnection (sample_env [] True False) (JStr ''tok'') opened_driver)))
      7 ''begin PKG_SESSION.LOGOFF_WEB(SCONNECT => :SCONNECT); end;''
      (Some (Positional [JStr ''tok''])) (Some []) = Inr sample_result \<and>
   fst (logoff (sample_env [] True False) (JStr ''tok'') opened_driver) = Inr (- 1)"
proof -
  let ?E = "sample_env [] True False"
  note g = getConnection_sample_ok [of True False]
  have c: "close_reply ?E h 7 = Some ''DPI-1010''" for h
    by (simp add: sample_env_def)
  have x: "execute_reply ?E h 7 sql b opts = Inr sample_result" for h sql b opts
    by (simp add: sample_env_def)
  show ?thesis
    by (simp add: logoff_def logoff_sql_def execute_def g conn_execute_def conn_close_def Let_def c x)
qed

lemma logoff_examples:
  "fst (logoff (sample_env [] False False) (JStr ''tok'') opened_driver) = Inr 0"
  "fst (logoff (sample_env [''begin PKG_SESSION.VALIDATE_WEB(SCONNECT => :SCONNECT); end;'']
                  False False) (JStr ''expired'') opened_driver) = Inr (- 1)"
  by (simp_all add: logoff_def logoff_sql_def execute_def getConnection_def step_defs sample_defs
        validate_sql_def)

section \<open>Bind Parameter Descriptor\<close>

text \<open>
  Claim C10. On a descriptor whose \<^verbatim>\<open>val\<close> has not been called, \<^verbatim>\<open>val(v)\<close> stores \<open>v\<close> in the
  property \<^verbatim>\<open>val\<close>, leaves the other properties alone and returns the descriptor. The stored
  value now stands where the method was: every later \<^verbatim>\<open>val(w)\<close> on that descriptor, directly
  or after any of the other chained methods, fails with a \<^verbatim>\<open>TypeError\<close> and updates nothing.
\<close>

theorem val_second_call_fails:
  assumes "val p = None"
  shows "val_call v p = Inr (p\<lparr>val := Some v\<rparr>) \<and>
         (\<forall>w. val_call w (p\<lparr>val := Some v\<rparr>) = Inl (TypeError ''val is not a function'')) \<and>
         (\<forall>w. \<forall>m \<in> {dirIn, dirOut, dirInOut, typeNumber, typeString n, typeDate, typeClob}.
               val (m (p\<lparr>val := Some v\<rparr>)) = Some v \<and>
               val_call w (m (p\<lparr>val := Some v\<rparr>)) = Inl (TypeError ''val is not a function''))"
  using assms
  by (simp add: val_call_def val_method_def dirIn_def dirOut_def dirInOut_def typeNumber_def
        typeString_def typeDate_def typeClob_def Let_def split: option.splits)

theorem val_second_call_fails_witness:
  "val new_OraSqlParam = None \<and>
   val_call (JStr ''TEST_VAL'') new_OraSqlParam =
     Inr \<lparr>dir = None, type = None, maxSize = None, val = Some (JStr ''TEST_VAL'')\<rparr> \<and>
   val_call (JNum 16) \<lparr>dir = None, type = None, maxSize = None, val = Some (JStr ''TEST_VAL'')\<rparr> =
     Inl (TypeError ''val is not a function'') \<and>
   val_call (JNum 16)
     (dirIn \<lparr>dir = None, type = None, maxSize = None, val = Some (JStr ''TEST_VAL'')\<rparr>) =
     Inl (TypeError ''val is not a function'')"
proof -
  have h: "val new_OraSqlParam = None"
    by (simp add: new_OraSqlParam_def)
  from val_second_call_fails [OF h, of "JStr ''TEST_VAL''" None] h
  show ?thesis
    by (simp add: new_OraSqlParam_def)
qed

section \<open>Pool Manager: close\<close>

text \<open>
  Claim C9, as the code has it. \<^verbatim>\<open>close()\<close> calls \<^verbatim>\<open>terminate\<close> on the pool and nothing else.
  When the termination succeeds the driver is as before with \<open>isOpened\<close> false. When the
  termination is rejected, \<^verbatim>\<open>close()\<close> fails with that rejection and \<open>isOpened\<close> is what it
  was. On a driver that has no pool (a new driver, or one on which every \<^verbatim>\<open>open()\<close> failed)
  \<^verbatim>\<open>close()\<close> throws a \<^verbatim>\<open>TypeError\<close>, makes no call and changes nothing, so \<open>isOpened\<close> stays false.
\<close>

theorem close_outcomes:
  "(close E d = (Inr u, d') \<longrightarrow>
      \<not> isOpened d' \<and>
      (\<exists>p. pool d = Some p \<and> terminate_reply E (calls d) p = None \<and>
           d' = d\<lparr>calls := calls d @ [PoolTerminate p], isOpened := False\<rparr>)) \<and>
   (close E d = (Inl e, d') \<longrightarrow>
      isOpened d' = isOpened d \<and>
      (pool d = None \<or>
       (\<exists>p x. pool d = Some p \<and> terminate_reply E (calls d) p = Some x \<and> e = Rejected x \<and>
              d' = d\<lparr>calls := calls d @ [PoolTerminate p]\<rparr>))) \<and>
   (pool d = None \<longrightarrow>
      close E d = (Inl (TypeError ''Cannot read property 'terminate' of undefined''), d)) \<and>
   (open E0 (new_driver cfg) = (Inl e0, d0) \<longrightarrow> pool d0 = None \<and> \<not> isOpened d0) \<and>
   pool (new_driver cfg) = None \<and> \<not> isOpened (new_driver cfg)"
proof (intro conjI impI)
  assume "close E d = (Inr u, d')"
  then show "\<not> isOpened d'"
    and "\<exists>p. pool d = Some p \<and> terminate_reply E (calls d) p = None \<and>
           d' = d\<lparr>calls := calls d @ [PoolTerminate p], isOpened := False\<rparr>"
    by (auto simp: close_def Let_def split: option.splits)
next
  assume h: "close E d = (Inl e, d')"
  then show "isOpened d' = isOpened d"
    by (auto simp: close_def Let_def split: option.splits)
  from h show "pool d = None \<or>
       (\<exists>p x. pool d = Some p \<and> terminate_reply E (calls d) p = Some x \<and> e = Rejected x \<and>
              d' = d\<lparr>calls := calls d @ [PoolTerminate p]\<rparr>)"
    by (auto simp: close_def Let_def split: option.splits)
next
  assume "pool d = None"
  then show "close E d =
      (Inl (TypeError ''Cannot read property 'terminate' of undefined''), d)"
    by (simp add: close_def)
next
  assume h: "open E0 (new_driver cfg) = (Inl e0, d0)"
  from open_failure [OF h] show "pool d0 = None" and "\<not> isOpened d0"
    by (simp_all add: new_driver_def)
next
  show "pool (new_driver cfg) = None" and "\<not> isOpened (new_driver cfg)"
    by (simp_all add: new_driver_def)
qed

theorem close_outcomes_witness:
  "close (sample_env [] False False) opened_driver =
     (Inr (), opened_driver\<lparr>calls := calls opened_driver @ [PoolTerminate 1], isOpened := False\<rparr>) \<and>
   \<not> isOpened (opened_driver\<lparr>calls := calls opened_driver @ [PoolTerminate 1], isOpened := False\<rparr>) \<and>
   close (sample_env [] False True) opened_driver =
     (Inl (Rejected ''ORA-24422''), opened_driver\<lparr>calls := calls opened_driver @ [PoolTerminate 1]\<rparr>) \<and>
   isOpened (opened_driver\<lparr>calls := calls opened_driver @ [PoolTerminate 1]\<rparr>) \<and>
   open (sample_env [] False False) (new_driver (sample_config\<lparr>username := None\<rparr>)) =
     (Inl (Thrown ''You must set user's name before open database''),
      new_driver (sample_config\<lparr>username := None\<rparr>)) \<and>
   pool (new_driver (sample_config\<lparr>username := None\<rparr>)) = None \<and>
   close (sample_env [] False False) (new_driver (sample_config\<lparr>username := None\<rparr>)) =
     (Inl (TypeError ''Cannot read property 'terminate' of undefined''),
      new_driver (sample_config\<lparr>username := None\<rparr>))"
proof -
  let ?E = "sample_env [] False False"
  let ?T = "sample_env [] False True"
  let ?ok = "opened_driver\<lparr>calls := calls opened_driver @ [PoolTerminate 1], isOpened := False\<rparr>"
  let ?ko = "opened_driver\<lparr>calls := calls opened_driver @ [PoolTerminate 1]\<rparr>"
  let ?n = "new_driver (sample_config\<lparr>username := None\<rparr>)"
  have a: "close ?E opened_driver = (Inr (), ?ok)"
    by (simp add: close_def sample_defs Let_def)
  have b: "close ?T opened_driver = (Inl (Rejected ''ORA-24422''), ?ko)"
    by (simp add: close_def sample_defs Let_def)
  have c: "open ?E ?n = (Inl (Thrown ''You must set user's name before open database''), ?n)"
    by (simp add: open_def sample_defs truthy_def)
  have i: "isOpened opened_driver"
    by (simp add: opened_driver_def)
  have n: "pool ?n = None"
    by (simp add: new_driver_def)
  from close_outcomes [where E = ?E and d = opened_driver and u = "()" and d' = ?ok]
       close_outcomes [where E = ?T and d = opened_driver and e = "Rejected ''ORA-24422''"
                            and d' = ?ko]
       close_outcomes [where E = ?E and d = ?n and ?E0.0 = ?E
                            and cfg = "sample_config\<lparr>username := None\<rparr>"
                            and ?e0.0 = "Thrown ''You must set user's name before open database''"
                            and ?d0.0 = ?n]
       a b c i n
  show ?thesis by simp
qed

text \<open>
  Claim C9 as it is written fails at both ends. On a new driver \<^verbatim>\<open>close()\<close> is not a no-op
  and raises no error of its own: it throws the \<^verbatim>\<open>TypeError\<close> of reading \<^verbatim>\<open>terminate\<close> from a
  pool that is not there. On an open driver whose pool refuses to terminate, \<^verbatim>\<open>close()\<close>
  fails with the pool's error and \<open>isOpened\<close> stays true.
\<close>

theorem close_counterexample:
  "close (sample_env [] False False) (new_driver sample_config) =
     (Inl (TypeError ''Cannot read property 'terminate' of undefined''), new_driver sample_config) \<and>
   isOpened opened_driver \<and>
   fst (close (sample_env [] False True) opened_driver) = Inl (Rejected ''ORA-24422'') \<and>
   isOpened (snd (close (sample_env [] False True) opened_driver))"
  by (simp add: close_def sample_defs Let_def)

section \<open>Session Lifecycle Manager: logon\<close>

text \<open>
  Claim C2 does not hold of the code: the schema switch of \<^verbatim>\<open>logon\<close> stands before the
  \<^verbatim>\<open>try\<close>, so when it is rejected the \<^verbatim>\<open>finally\<close> block never runs. Here the pool leases
  connection 7, the schema switch is rejected, \<^verbatim>\<open>logon\<close> fails with that error, and the log
  ends with the schema switch: connection 7 is never closed.
\<close>

theorem logon_schema_switch_failure_leaks:
  "fst (logon (sample_env [''alter session set CURRENT_SCHEMA = PARUS''] False False)
          (JStr ''u'') (JStr ''p'') JUndefined JUndefined JUndefined None
          (new_driver sample_config)) = Inl (Rejected ''ORA-20000'') \<and>
   calls (snd (logon (sample_env [''alter session set CURRENT_SCHEMA = PARUS''] False False)
                 (JStr ''u'') (JStr ''p'') JUndefined JUndefined JUndefined None
                 (new_driver sample_config))) =
     [RandomBytes 24,
      CreatePool (Some ''parus'') (Some ''secret'') (Some ''orcl''),
      PoolGetConnection 1,
      ConnExecute 7 ''alter session set CURRENT_SCHEMA = PARUS'' None None] \<and>
   count_list
     (calls (snd (logon (sample_env [''alter session set CURRENT_SCHEMA = PARUS''] False False)
                    (JStr ''u'') (JStr ''p'') JUndefined JUndefined JUndefined None
                    (new_driver sample_config))))
     (ConnClose 7) = 0"
proof -
  let ?E = "sample_env [''alter session set CURRENT_SCHEMA = PARUS''] False False"
  have "logon ?E (JStr ''u'') (JStr ''p'') JUndefined JUndefined JUndefined None
          (new_driver sample_config) =
        (Inl (Rejected ''ORA-20000''),
         opened_driver\<lparr>calls :=
           [RandomBytes 24,
            CreatePool (Some ''parus'') (Some ''secret'') (Some ''orcl''),
            PoolGetConnection 1,
            ConnExecute 7 ''alter session set CURRENT_SCHEMA = PARUS'' None None]\<rparr>)"
    by (simp add: logon_def randomBytes_def paramsLogin_built step_defs sample_defs)
  then show ?thesis by simp
qed

text \<open>
  Claim C8. The first thing a \<^verbatim>\<open>logon\<close> call does is draw 24 random bytes, and it draws no
  others: the log of the call starts with that draw, before any statement, and has no
  second one. The hexadecimal encoding of those bytes has 48 characters, all of them digits
  or lowercase letters \<open>a\<close> to \<open>f\<close>, and it is the \<^verbatim>\<open>sessionID\<close> of the row every successful
  call returns. (When the informational query yields no row, the call returns \<^verbatim>\<open>undefined\<close>
  and there is no \<^verbatim>\<open>sessionID\<close> to speak of.)
\<close>

theorem logon_sessionID:
  "(logon E u pw co app lang flag d = (Inr (Some row), d') \<longrightarrow>
      map_of row ''sessionID'' =
        Some (JStr (toString_hex (map (random_byte E (calls d)) [0..<24])))) \<and>
   length (toString_hex (map (random_byte E (calls d)) [0..<24])) = 48 \<and>
   list_all lower_hex (toString_hex (map (random_byte E (calls d)) [0..<24])) \<and>
   (\<exists>rest. calls (snd (logon E u pw co app lang flag d)) = calls d @ RandomBytes 24 # rest \<and>
           list_all (\<lambda>x. \<not> is_RandomBytes x) rest)"
proof (intro conjI impI)
  assume h: "logon E u pw co app lang flag d = (Inr (Some row), d')"
  from logon_success [OF h] obtain c d3 d4 ps where
    "logon_try E c (sqlLogon (flag = Some True)) ps
       (toString_hex (map (random_byte E (calls d)) [0..<24])) d3 = (Inr (Some row), d4)"
    by blast
  from logon_try_success(2) [OF this]
  show "map_of row ''sessionID'' =
          Some (JStr (toString_hex (map (random_byte E (calls d)) [0..<24])))"
    by simp
next
  show "length (toString_hex (map (random_byte E (calls d)) [0..<24])) = 48"
    by (simp add: length_toString_hex)
  show "list_all lower_hex (toString_hex (map (random_byte E (calls d)) [0..<24]))"
    by (rule toString_hex_lower)
  show "\<exists>rest. calls (snd (logon E u pw co app lang flag d)) = calls d @ RandomBytes 24 # rest \<and>
           list_all (\<lambda>x. \<not> is_RandomBytes x) rest"
    by (rule logon_log [OF surjective_pairing])
qed

theorem logon_sessionID_witness:
  "fst (logon (sample_env [] False False) (JStr ''u'') (JStr ''p'') JUndefined JUndefined JUndefined
          None (new_driver sample_config)) =
     Inr (Some (sample_row @
       [(''sessionID'', JStr ''000102030405060708090a0b0c0d0e0f1011121314151617'')])) \<and>
   map_of (sample_row @
       [(''sessionID'', JStr ''000102030405060708090a0b0c0d0e0f1011121314151617'')])
     ''sessionID'' = Some (JStr ''000102030405060708090a0b0c0d0e0f1011121314151617'')"
proof -
  note h = logon_sample [of None]
  from logon_sessionID [where E = "sample_env [] False False" and d = "new_driver sample_config",
         THEN conjunct1, THEN mp, OF h] h
  show ?thesis
    by (simp add: sample_token sample_env_def new_driver_def del: upt_Suc)
qed

text \<open>
  Claim C6. With the legacy flag set, the text of the logon statement does not mention
  \<^verbatim>\<open>SBROWSER\<close> and the bind collection has no \<^verbatim>\<open>SBROWSER\<close> entry; with the flag false the text
  has the line \<^verbatim>\<open>SBROWSER        => :SBROWSER,\<close> and the collection binds \<^verbatim>\<open>SBROWSER\<close> to the
  driver's client tag. Leaving the flag out is the same as passing false. The statement and
  the collection of a \<^verbatim>\<open>logon\<close> call are the ones these functions build for its flag: a
  call that returns has sent exactly them, followed by the informational query and the close.
\<close>

theorem logon_browser_param:
  "\<not> sublist ''SBROWSER'' (sqlLogon True) \<and>
   sublist ''SBROWSER        => :SBROWSER,'' (sqlLogon False) \<and>
   (\<exists>ps. paramsLogin d sid u pw co app lang True = Inr ps \<and>
         map_of ps ''SBROWSER'' = None) \<and>
   (\<exists>ps. paramsLogin d sid u pw co app lang False = Inr ps \<and>
         map_of ps ''SBROWSER'' = Some (new_OraSqlParam\<lparr>val := Some (JStr (browser d))\<rparr>)) \<and>
   logon E u pw co app lang None d = logon E u pw co app lang (Some False) d \<and>
   (logon E u pw co app lang flag d = (Inr row, d') \<longrightarrow>
      (\<exists>c ps pre.
         paramsLogin d (toString_hex (map (random_byte E (calls d)) [0..<24])) u pw co app lang
            (case flag of None \<Rightarrow> False | Some b \<Rightarrow> b) = Inr ps \<and>
         calls d' = pre @
           [ConnExecute c (sqlLogon (case flag of None \<Rightarrow> False | Some b \<Rightarrow> b))
              (Some (Named ps)) (Some []),
            ConnExecute c sqlInfo (Some (Named [])) (Some []),
            ConnClose c]))"
proof (intro conjI impI)
  show "\<not> sublist ''SBROWSER'' (sqlLogon True)"
    by (rule sqlLogon_legacy)
  show "sublist ''SBROWSER        => :SBROWSER,'' (sqlLogon False)"
    by (rule sqlLogon_default)
  show "\<exists>ps. paramsLogin d sid u pw co app lang True = Inr ps \<and> map_of ps ''SBROWSER'' = None"
    by (simp add: paramsLogin_built)
  show "\<exists>ps. paramsLogin d sid u pw co app lang False = Inr ps \<and>
         map_of ps ''SBROWSER'' = Some (new_OraSqlParam\<lparr>val := Some (JStr (browser d))\<rparr>)"
    by (simp add: paramsLogin_built)
  show "logon E u pw co app lang None d = logon E u pw co app lang (Some False) d"
    by (simp add: logon_def)
next
  assume h: "logon E u pw co app lang flag d = (Inr row, d')"
  have old: "(case flag of None \<Rightarrow> False | Some b \<Rightarrow> b) = (flag = Some True)"
    by (cases flag) auto
  from logon_success [OF h] obtain c d3 d4 ps where
    ps: "paramsLogin d (toString_hex (map (random_byte E (calls d)) [0..<24]))
              u pw co app lang (flag = Some True) = Inr ps" and
    t: "logon_try E c (sqlLogon (flag = Some True)) ps
              (toString_hex (map (random_byte E (calls d)) [0..<24])) d3 = (Inr row, d4)" and
    l: "calls d' = calls d4 @ [ConnClose c]"
    by blast
  from logon_try_success(1) [OF t] l
  have "calls d' = calls d3 @
           [ConnExecute c (sqlLogon (flag = Some True)) (Some (Named ps)) (Some []),
            ConnExecute c sqlInfo (Some (Named [])) (Some []),
            ConnClose c]"
    by simp
  with ps show "\<exists>c ps pre.
         paramsLogin d (toString_hex (map (random_byte E (calls d)) [0..<24])) u pw co app lang
            (case flag of None \<Rightarrow> False | Some b \<Rightarrow> b) = Inr ps \<and>
         calls d' = pre @
           [ConnExecute c (sqlLogon (case flag of None \<Rightarrow> False | Some b \<Rightarrow> b))
              (Some (Named ps)) (Some []),
            ConnExecute c sqlInfo (Some (Named [])) (Some []),
            ConnClose c]"
    unfolding old by blast
qed

theorem logon_browser_param_witness:
  "fst (logon (sample_env [] False False) (JStr ''u'') (JStr ''p'') JUndefined JUndefined JUndefined
          (Some True) (new_driver sample_config)) =
     Inr (Some (sample_row @
       [(''sessionID'', JStr ''000102030405060708090a0b0c0d0e0f1011121314151617'')])) \<and>
   calls (snd (logon (sample_env [] False False) (JStr ''u'') (JStr ''p'') JUndefined JUndefined
                 JUndefined (Some True) (new_driver sample_config))) =
     [RandomBytes 24,
      CreatePool (Some ''parus'') (Some ''secret'') (Some ''orcl''),
      PoolGetConnection 1,
      ConnExecute 7 ''alter session set CURRENT_SCHEMA = PARUS'' None None,
      ConnExecute 7 (sqlLogon True)
        (Some (Named
          [(''SCONNECT'', new_OraSqlParam
               \<lparr>val := Some (JStr ''000102030405060708090a0b0c0d0e0f1011121314151617'')\<rparr>),
           (''SUTILIZER'', new_OraSqlParam\<lparr>val := Some (JStr ''u'')\<rparr>),
           (''SPASSWORD'', new_OraSqlParam\<lparr>val := Some (JStr ''p'')\<rparr>),
           (''SIMPLEMENTATION'', new_OraSqlParam\<lparr>val := Some (JStr ''AdminOnline'')\<rparr>),
           (''SAPPLICATION'', new_OraSqlParam\<lparr>val := Some JUndefined\<rparr>),
           (''SCOMPANY'', new_OraSqlParam\<lparr>val := Some JUndefined\<rparr>),
           (''SLANGUAGE'', new_OraSqlParam\<lparr>val := Some JUndefined\<rparr>)]))
        (Some []),
      ConnExecute 7 sqlInfo (Some (Named [])) (Some []),
      ConnClose 7]"
proof -
  let ?row = "Some (sample_row @
       [(''sessionID'', JStr ''000102030405060708090a0b0c0d0e0f1011121314151617'')])"
  let ?d' = "snd (logon (sample_env [] False False) (JStr ''u'') (JStr ''p'') JUndefined JUndefined
                 JUndefined (Some True) (new_driver sample_config))"
  note s = logon_sample [of "Some True"]
  from s have h: "logon (sample_env [] False False) (JStr ''u'') (JStr ''p'') JUndefined JUndefined
                 JUndefined (Some True) (new_driver sample_config) = (Inr ?row, ?d')"
    by simp
  from logon_browser_param [where E = "sample_env [] False False" and flag = "Some True"
         and d = "new_driver sample_config" and u = "JStr ''u''" and pw = "JStr ''p''"
         and co = JUndefined and app = JUndefined and lang = JUndefined
         and row = ?row and d' = ?d'] h s
  show ?thesis
    by simp
qed

end
